theory Spec2Isabelle
  imports Complex_Main
begin

section \<open>Values and exceptions of the Python program\<close>

text \<open>
  The program is \<^verbatim>\<open>main.py\<close>: a distance function and a fetcher that filters and
  sorts the features of a GeoJSON feed. Python floats are modelled as real numbers
  (no rounding error, no overflow, no NaN, no infinity), Python ints as the integers among
  them; where the rounding of the floats decides whether the distance function returns at
  all, \<open>calculate_distance_rounded\<close> carries the rounding error as an argument. An
  exception is a value: a computation that may raise returns \<open>exn + 'a\<close>, with \<open>Inl\<close> for
  the exception raised.
\<close>

text \<open>
  A decoded JSON document, as \<^verbatim>\<open>response.json()\<close> returns it: \<^verbatim>\<open>None\<close>, a bool, a
  number, a string, a list or a dict. A dict is an association list; the decoder has
  already resolved duplicate keys, so each key occurs once and \<open>map_of\<close> is the lookup.
  A string is the list of the bytes of its UTF-8 form.
\<close>

datatype json =
    JNull
  | JBool bool
  | JNum real
  | JStr string
  | JArr "json list"
  | JObj "(string \<times> json) list"

text \<open>
  The exceptions of the program; all are subclasses of \<^verbatim>\<open>Exception\<close>. \<^verbatim>\<open>KeyError\<close> carries
  the missing key, \<^verbatim>\<open>HTTPError\<close> the status code.
\<close>

datatype exn =
    ConnectionError
  | Timeout
  | HTTPError nat
  | JSONDecodeError
  | AttributeError
  | TypeError
  | KeyError json
  | IndexError
  | ValueError

text \<open>Sequencing of computations that may raise: the first exception wins.\<close>

definition and_then :: "exn + 'a \<Rightarrow> ('a \<Rightarrow> exn + 'b) \<Rightarrow> exn + 'b" where
  "and_then m f = (case m of Inl e \<Rightarrow> Inl e | Inr x \<Rightarrow> f x)"

text \<open>
  Where Python needs a float (the arguments of \<^verbatim>\<open>math.radians\<close>, of \<^verbatim>\<open>/\<close> and of
  \<^verbatim>\<open>round\<close>), a number is taken as it is, a bool as 0 or 1 (\<^verbatim>\<open>bool\<close> is a subclass of
  \<^verbatim>\<open>int\<close>), and anything else raises \<^verbatim>\<open>TypeError\<close>.
\<close>

fun as_float :: "json \<Rightarrow> exn + real" where
  "as_float (JNum x) = Inr x"
| "as_float (JBool b) = Inr (of_bool b)"
| "as_float _ = Inl TypeError"

section \<open>The distance calculator\<close>

text \<open>The functions of Python's \<^verbatim>\<open>math\<close> module that \<^verbatim>\<open>calculate_distance\<close> calls.\<close>

definition radians :: "json \<Rightarrow> exn + real" where
  "radians v = and_then (as_float v) (\<lambda>x. Inr (x * pi / 180))"

text \<open>\<^verbatim>\<open>math.sqrt\<close> raises \<^verbatim>\<open>ValueError\<close> (math domain error) below zero.\<close>

definition math_sqrt :: "real \<Rightarrow> exn + real" where
  "math_sqrt x = (if x < 0 then Inl ValueError else Inr (sqrt x))"

text \<open>\<^verbatim>\<open>math.atan2(y, x)\<close>: the angle of the point \<open>(x, y)\<close>, in \<open>(-pi, pi]\<close>.\<close>

definition atan2 :: "real \<Rightarrow> real \<Rightarrow> real" where
  "atan2 y x =
     (if 0 < x then arctan (y / x)
      else if x < 0 then (if 0 \<le> y then arctan (y / x) + pi else arctan (y / x) - pi)
      else if 0 < y then pi / 2
      else if y < 0 then - (pi / 2)
      else 0)"

text \<open>
  \<^verbatim>\<open>
  def calculate_distance(lat1, lon1, lat2, lon2):
      R = 6371
      lat1, lon1, lat2, lon2 = map(radians, [lat1, lon1, lat2, lon2])
      dlat = lat2 - lat1
      dlon = lon2 - lon1
      a = sin(dlat/2)**2 + cos(lat1) * cos(lat2) * sin(dlon/2)**2
      c = 2 * atan2(sqrt(a), sqrt(1-a))
      distance = R * c
      return distance
  \<close>
\<close>

definition calculate_distance :: "json \<Rightarrow> json \<Rightarrow> json \<Rightarrow> json \<Rightarrow> exn + real" where
  "calculate_distance lat1 lon1 lat2 lon2 =
     (let R = 6371 in
      and_then (radians lat1) (\<lambda>lat1.
      and_then (radians lon1) (\<lambda>lon1.
      and_then (radians lat2) (\<lambda>lat2.
      and_then (radians lon2) (\<lambda>lon2.
        let dlat = lat2 - lat1;
            dlon = lon2 - lon1;
            a = (sin (dlat / 2))\<^sup>2 + cos lat1 * cos lat2 * (sin (dlon / 2))\<^sup>2
        in and_then (math_sqrt a) (\<lambda>sqrt_a.
           and_then (math_sqrt (1 - a)) (\<lambda>sqrt_1a.
             let c = 2 * atan2 sqrt_a sqrt_1a;
                 distance = R * c
             in Inr distance)))))))"

text \<open>
  Python evaluates line 24 in binary floating point, and the float \<^verbatim>\<open>a\<close> may differ from
  the exact value of the expression. \<open>calculate_distance_rounded err\<close> is the function when
  that evaluation is off by \<open>err\<close>: the float \<^verbatim>\<open>a\<close> is the exact value plus \<open>err\<close>. The
  square roots of line 25 raise exactly when the float \<^verbatim>\<open>a\<close> lies outside \<open>[0, 1]\<close> (the sign
  of \<^verbatim>\<open>1 - a\<close> is computed exactly); the other roundings change the digits of a result,
  never whether there is one, and are left out. With \<open>err = 0\<close> this is
  \<open>calculate_distance\<close>.
\<close>

definition calculate_distance_rounded :: "real \<Rightarrow> json \<Rightarrow> json \<Rightarrow> json \<Rightarrow> json \<Rightarrow> exn + real" where
  "calculate_distance_rounded err lat1 lon1 lat2 lon2 =
     (let R = 6371 in
      and_then (radians lat1) (\<lambda>lat1.
      and_then (radians lon1) (\<lambda>lon1.
      and_then (radians lat2) (\<lambda>lat2.
      and_then (radians lon2) (\<lambda>lon2.
        let dlat = lat2 - lat1;
            dlon = lon2 - lon1;
            a = (sin (dlat / 2))\<^sup>2 + cos lat1 * cos lat2 * (sin (dlon / 2))\<^sup>2 + err
        in and_then (math_sqrt a) (\<lambda>sqrt_a.
           and_then (math_sqrt (1 - a)) (\<lambda>sqrt_1a.
             let c = 2 * atan2 sqrt_a sqrt_1a;
                 distance = R * c
             in Inr distance)))))))"

text \<open>
  The haversine formula in the words of the specification, on degrees: convert the four
  coordinates to radians, \<open>a = sin\<^sup>2(\<Delta>lat/2) + cos lat1 \<cdot> cos lat2 \<cdot> sin\<^sup>2(\<Delta>lon/2)\<close>,
  \<open>c = 2 \<cdot> atan2(\<surd>a, \<surd>(1 - a))\<close>, result \<open>R \<cdot> c\<close> with \<open>R = 6371\<close>.
\<close>

definition to_rad :: "real \<Rightarrow> real" where
  "to_rad d = d * pi / 180"

definition haversine_a :: "real \<Rightarrow> real \<Rightarrow> real \<Rightarrow> real \<Rightarrow> real" where
  "haversine_a lat1 lon1 lat2 lon2 =
     (sin ((to_rad lat2 - to_rad lat1) / 2))\<^sup>2
       + cos (to_rad lat1) * cos (to_rad lat2) * (sin ((to_rad lon2 - to_rad lon1) / 2))\<^sup>2"

definition haversine_spec :: "real \<Rightarrow> real \<Rightarrow> real \<Rightarrow> real \<Rightarrow> real" where
  "haversine_spec lat1 lon1 lat2 lon2 =
     6371 * (2 * atan2 (sqrt (haversine_a lat1 lon1 lat2 lon2))
                       (sqrt (1 - haversine_a lat1 lon1 lat2 lon2)))"

section \<open>Python operations on decoded JSON\<close>

text \<open>Truth value testing: \<^verbatim>\<open>None\<close>, \<^verbatim>\<open>False\<close>, zero and empty containers are false.\<close>

fun truthy :: "json \<Rightarrow> bool" where
  "truthy JNull = False"
| "truthy (JBool b) = b"
| "truthy (JNum x) = (x \<noteq> 0)"
| "truthy (JStr s) = (s \<noteq> [])"
| "truthy (JArr xs) = (xs \<noteq> [])"
| "truthy (JObj kvs) = (kvs \<noteq> [])"

text \<open>\<^verbatim>\<open>d.get(key, default)\<close>: only a dict has the method.\<close>

fun dict_get :: "json \<Rightarrow> string \<Rightarrow> json \<Rightarrow> exn + json" where
  "dict_get (JObj kvs) k d = Inr (case map_of kvs k of None \<Rightarrow> d | Some v \<Rightarrow> v)"
| "dict_get _ k d = Inl AttributeError"

text \<open>
  \<^verbatim>\<open>v[key]\<close> with a string key: a dict raises \<^verbatim>\<open>KeyError\<close> on a missing key; a list or a
  string wants an integer index, and nothing else can be subscripted.
\<close>

fun subscript_key :: "json \<Rightarrow> string \<Rightarrow> exn + json" where
  "subscript_key (JObj kvs) k =
     (case map_of kvs k of None \<Rightarrow> Inl (KeyError (JStr k)) | Some v \<Rightarrow> Inr v)"
| "subscript_key _ k = Inl TypeError"

text \<open>
  \<^verbatim>\<open>v[i]\<close> with a constant index \<open>i \<ge> 0\<close>: a list or a string raises \<^verbatim>\<open>IndexError\<close> out of
  range (a string yields the one-character string); a decoded dict has string keys only,
  so an integer key is missing.
\<close>

fun subscript_idx :: "json \<Rightarrow> nat \<Rightarrow> exn + json" where
  "subscript_idx (JArr xs) i = (if i < length xs then Inr (xs ! i) else Inl IndexError)"
| "subscript_idx (JStr s) i = (if i < length s then Inr (JStr [s ! i]) else Inl IndexError)"
| "subscript_idx (JObj kvs) i = Inl (KeyError (JNum (of_nat i)))"
| "subscript_idx _ i = Inl TypeError"

text \<open>
  \<^verbatim>\<open>for x in v\<close>: the elements of a list, the characters of a string, the keys of a dict;
  anything else is not iterable.
\<close>

fun py_iter :: "json \<Rightarrow> exn + json list" where
  "py_iter (JArr xs) = Inr xs"
| "py_iter (JStr s) = Inr (map (\<lambda>c. JStr [c]) s)"
| "py_iter (JObj kvs) = Inr (map (\<lambda>kv. JStr (fst kv)) kvs)"
| "py_iter _ = Inl TypeError"

text \<open>\<^verbatim>\<open>v / n\<close>: true division of a number.\<close>

definition true_div :: "json \<Rightarrow> real \<Rightarrow> exn + real" where
  "true_div v n = and_then (as_float v) (\<lambda>x. Inr (x / n))"

text \<open>
  \<^verbatim>\<open>round(x, 1)\<close>: the closest multiple of one tenth, a tie going to the even choice.
\<close>

definition round_half_even :: "real \<Rightarrow> int" where
  "round_half_even x =
     (let f = \<lfloor>x\<rfloor>; d = x - of_int f
      in if d < 1 / 2 then f
         else if 1 / 2 < d then f + 1
         else if even f then f else f + 1)"

definition round1 :: "real \<Rightarrow> real" where
  "round1 x = of_int (round_half_even (x * 10)) / 10"

definition py_round1 :: "json \<Rightarrow> exn + real" where
  "py_round1 v = and_then (as_float v) (\<lambda>x. Inr (round1 x))"

text \<open>
  \<^verbatim>\<open>a == b\<close> and \<^verbatim>\<open>a < b\<close> on decoded JSON. Numbers and bools compare by value, strings by
  code points (which is the byte order of their UTF-8 form), lists lexicographically (the
  first pair of unequal elements decides), dicts are equal when they hold equal values
  under the same keys; every other \<^verbatim>\<open><\<close> raises \<^verbatim>\<open>TypeError\<close>.
\<close>

fun py_eq :: "json \<Rightarrow> json \<Rightarrow> bool" where
  "py_eq JNull JNull = True"
| "py_eq (JBool a) (JBool b) = (a = b)"
| "py_eq (JBool a) (JNum y) = (of_bool a = y)"
| "py_eq (JNum x) (JBool b) = (x = of_bool b)"
| "py_eq (JNum x) (JNum y) = (x = y)"
| "py_eq (JStr s) (JStr t) = (s = t)"
| "py_eq (JArr xs) (JArr ys) = list_all2 py_eq xs ys"
| "py_eq (JObj a) (JObj b) =
     (length a = length b \<and>
      list_all (\<lambda>kv. case map_of b (fst kv) of None \<Rightarrow> False | Some v' \<Rightarrow> py_eq (snd kv) v') a)"
| "py_eq _ _ = False"

fun str_lt :: "string \<Rightarrow> string \<Rightarrow> bool" where
  "str_lt [] [] = False"
| "str_lt [] (d # ds) = True"
| "str_lt (c # cs) [] = False"
| "str_lt (c # cs) (d # ds) = (if c = d then str_lt cs ds else (of_char c :: nat) < of_char d)"

fun py_lt :: "json \<Rightarrow> json \<Rightarrow> exn + bool"
  and list_lt :: "json list \<Rightarrow> json list \<Rightarrow> exn + bool" where
  "py_lt (JBool a) (JBool b) = Inr ((of_bool a :: real) < of_bool b)"
| "py_lt (JBool a) (JNum y) = Inr (of_bool a < y)"
| "py_lt (JNum x) (JBool b) = Inr (x < of_bool b)"
| "py_lt (JNum x) (JNum y) = Inr (x < y)"
| "py_lt (JStr s) (JStr t) = Inr (str_lt s t)"
| "py_lt (JArr xs) (JArr ys) = list_lt xs ys"
| "py_lt _ _ = Inl TypeError"
| "list_lt [] [] = Inr False"
| "list_lt [] (y # ys) = Inr True"
| "list_lt (x # xs) [] = Inr False"
| "list_lt (x # xs) (y # ys) = (if py_eq x y then list_lt xs ys else py_lt x y)"

text \<open>
  \<^verbatim>\<open>xs.sort(key=key, reverse=True)\<close>. The sort is stable: it reverses the list, sorts it
  in ascending order of the keys keeping equal keys in place, and reverses the result. The
  ascending sort is written as an insertion sort; every stable sort returns the same list
  when the keys compare without fault. A list of fewer than two elements is not compared
  at all. Two keys that cannot be compared raise \<^verbatim>\<open>TypeError\<close>; the model raises whenever
  some pair of keys is incomparable. (The library sort raises when it meets such a pair,
  which it must when the keys are of different kinds or dicts; for three or more
  list-valued keys of which only some pairs are incomparable it may not meet one.)
\<close>

definition comparable :: "json \<Rightarrow> json \<Rightarrow> bool" where
  "comparable a b = (case py_lt a b of Inl e \<Rightarrow> False | Inr r \<Rightarrow> True)"

definition key_less :: "json \<Rightarrow> json \<Rightarrow> bool" where
  "key_less a b = (py_lt a b = Inr True)"

fun insert_by_key :: "('a \<Rightarrow> json) \<Rightarrow> 'a \<Rightarrow> 'a list \<Rightarrow> 'a list" where
  "insert_by_key key x [] = [x]"
| "insert_by_key key x (y # ys) =
     (if key_less (key y) (key x) then y # insert_by_key key x ys else x # y # ys)"

definition stable_sort :: "('a \<Rightarrow> json) \<Rightarrow> 'a list \<Rightarrow> 'a list" where
  "stable_sort key xs = foldr (insert_by_key key) xs []"

definition sort_reverse :: "('a \<Rightarrow> json) \<Rightarrow> 'a list \<Rightarrow> exn + 'a list" where
  "sort_reverse key xs =
     (if length xs < 2 then Inr xs
      else if list_all (\<lambda>a. list_all (\<lambda>b. comparable (key a) (key b)) xs) xs
        then Inr (rev (stable_sort key (rev xs)))
      else Inl TypeError)"

section \<open>Dates and times\<close>

text \<open>
  A naive \<^verbatim>\<open>datetime\<close>, to the second (no format of the program shows more). The calendar
  is the proleptic Gregorian one; \<open>civil_from_days\<close> turns a count of days since
  1970-01-01 into year, month and day.
\<close>

record datetime =
  year :: int
  month :: int
  day :: int
  hour :: int
  minute :: int
  second :: int

definition civil_from_days :: "int \<Rightarrow> int \<times> int \<times> int" where
  "civil_from_days z0 =
     (let z = z0 + 719468;
          era = z div 146097;
          doe = z - era * 146097;
          yoe = (doe - doe div 1460 + doe div 36524 - doe div 146096) div 365;
          y = yoe + era * 400;
          doy = doe - (365 * yoe + yoe div 4 - yoe div 100);
          mp = (5 * doy + 2) div 153;
          d = doy - (153 * mp + 2) div 5 + 1;
          m = (if mp < 10 then mp + 3 else mp - 9)
      in (if m \<le> 2 then y + 1 else y, m, d))"

definition datetime_of_seconds :: "int \<Rightarrow> datetime" where
  "datetime_of_seconds s =
     (let days = s div 86400;
          r = s mod 86400;
          ymd = civil_from_days days
      in \<lparr>year = fst ymd, month = fst (snd ymd), day = snd (snd ymd),
          hour = r div 3600, minute = r mod 3600 div 60, second = r mod 60\<rparr>)"

text \<open>
  \<^verbatim>\<open>datetime.fromtimestamp(t)\<close> without a time zone argument: \<open>t\<close> is rounded to
  microseconds (ties to even) and the instant is rendered in the \<^emph>\<open>local\<close> zone of the
  process, \<open>tz s\<close> being the zone's offset from UTC, in seconds, at the epoch second \<open>s\<close>.
  A year outside 1..9999 raises \<^verbatim>\<open>ValueError\<close> (a platform may raise \<^verbatim>\<open>OverflowError\<close> or
  \<^verbatim>\<open>OSError\<close> instead for an instant far out of range; the handler treats them alike).
\<close>

definition fromtimestamp :: "(int \<Rightarrow> int) \<Rightarrow> real \<Rightarrow> exn + datetime" where
  "fromtimestamp tz t =
     (let us = round_half_even (t * 1000000);
          s = us div 1000000;
          dt = datetime_of_seconds (s + tz s)
      in if year dt < 1 \<or> 9999 < year dt then Inl ValueError else Inr dt)"

text \<open>
  \<^verbatim>\<open>strftime\<close> with the two formats of the program, \<^verbatim>\<open>'%Y-%m-%dT%H:%M:%S'\<close> and
  \<^verbatim>\<open>'%Y-%m-%d %H:%M:%S UTC'\<close>; the year is written with four digits, the other fields
  with two.
\<close>

definition digit :: "int \<Rightarrow> char" where
  "digit d = ''0123456789'' ! nat d"

definition digits2 :: "int \<Rightarrow> string" where
  "digits2 n = [digit (n div 10 mod 10), digit (n mod 10)]"

definition digits4 :: "int \<Rightarrow> string" where
  "digits4 n = digits2 (n div 100) @ digits2 (n mod 100)"

definition strftime_date :: "datetime \<Rightarrow> string" where
  "strftime_date dt = digits4 (year dt) @ ''-'' @ digits2 (month dt) @ ''-'' @ digits2 (day dt)"

definition strftime_clock :: "datetime \<Rightarrow> string" where
  "strftime_clock dt =
     digits2 (hour dt) @ '':'' @ digits2 (minute dt) @ '':'' @ digits2 (second dt)"

definition strftime_T :: "datetime \<Rightarrow> string" where
  "strftime_T dt = strftime_date dt @ ''T'' @ strftime_clock dt"

definition strftime_UTC :: "datetime \<Rightarrow> string" where
  "strftime_UTC dt = strftime_date dt @ '' '' @ strftime_clock dt @ '' UTC''"

section \<open>The earthquake feed fetcher\<close>

text \<open>
  What the program sees of the outside: the answer of \<^verbatim>\<open>requests.get\<close> to a request
  (URL, query parameters, timeout in seconds), which raises or returns a response; the
  response's \<^verbatim>\<open>raise_for_status()\<close>, which raises \<^verbatim>\<open>HTTPError\<close> on an error status or
  returns; its \<^verbatim>\<open>json()\<close>, which raises on an undecodable body or returns the decoded
  document; the clock (\<open>utcnow n\<close> is the \<open>n\<close>-th reading, in seconds since the epoch);
  and the local time zone of the process.
\<close>

record response =
  raise_for_status :: "exn option"
  response_json :: "exn + json"

record world =
  requests_get :: "string \<Rightarrow> (string \<times> json) list \<Rightarrow> nat \<Rightarrow> exn + response"
  utcnow :: "nat \<Rightarrow> int"
  utc_offset :: "int \<Rightarrow> int"

definition SF_LAT :: real where
  "SF_LAT = 37.7749"

definition SF_LON :: real where
  "SF_LON = - 122.4194"

definition RADIUS_KM :: real where
  "RADIUS_KM = 200"

text \<open>The dict built for each nearby feature.\<close>

record earthquake_info =
  magnitude :: json
  place :: json
  time :: string
  distance_km :: real
  depth_km :: real
  url :: json
  alert :: json
  felt :: json
  tsunami :: json

text \<open>
  The body of the loop over the features: \<open>None\<close> when the feature lies beyond the radius
  and nothing is appended, the new dict otherwise.
  \<^verbatim>\<open>
  coords = feature['geometry']['coordinates']
  lon, lat = coords[0], coords[1]
  distance = calculate_distance(SF_LAT, SF_LON, lat, lon)
  if distance <= RADIUS_KM:
      properties = feature['properties']
      earthquake_info = {
          'magnitude': properties.get('mag'),
          'place': properties.get('place'),
          'time': datetime.fromtimestamp(properties.get('time') / 1000)
                          .strftime('%Y-%m-%d %H:%M:%S UTC'),
          'distance_km': round(distance, 1),
          'depth_km': round(coords[2], 1),
          'url': properties.get('url'),
          'alert': properties.get('alert'),
          'felt': properties.get('felt'),
          'tsunami': properties.get('tsunami')
      }
      nearby_earthquakes.append(earthquake_info)
  \<close>
\<close>

definition process_feature :: "(int \<Rightarrow> int) \<Rightarrow> json \<Rightarrow> exn + earthquake_info option" where
  "process_feature tz feature =
     and_then (subscript_key feature ''geometry'') (\<lambda>geometry.
     and_then (subscript_key geometry ''coordinates'') (\<lambda>coords.
     and_then (subscript_idx coords 0) (\<lambda>lon.
     and_then (subscript_idx coords 1) (\<lambda>lat.
     and_then (calculate_distance (JNum SF_LAT) (JNum SF_LON) lat lon) (\<lambda>distance.
       if distance \<le> RADIUS_KM then
         and_then (subscript_key feature ''properties'') (\<lambda>properties.
         and_then (dict_get properties ''mag'' JNull) (\<lambda>mag.
         and_then (dict_get properties ''place'' JNull) (\<lambda>place_v.
         and_then (dict_get properties ''time'' JNull) (\<lambda>time_v.
         and_then (true_div time_v 1000) (\<lambda>t.
         and_then (fromtimestamp tz t) (\<lambda>dt.
         and_then (subscript_idx coords 2) (\<lambda>depth.
         and_then (py_round1 depth) (\<lambda>depth_rounded.
         and_then (dict_get properties ''url'' JNull) (\<lambda>url_v.
         and_then (dict_get properties ''alert'' JNull) (\<lambda>alert_v.
         and_then (dict_get properties ''felt'' JNull) (\<lambda>felt_v.
         and_then (dict_get properties ''tsunami'' JNull) (\<lambda>tsunami_v.
           Inr (Some \<lparr>magnitude = mag, place = place_v, time = strftime_UTC dt,
                      distance_km = round1 distance, depth_km = depth_rounded,
                      url = url_v, alert = alert_v, felt = felt_v,
                      tsunami = tsunami_v\<rparr>)))))))))))))
       else Inr None)))))"

fun nearby_loop :: "(int \<Rightarrow> int) \<Rightarrow> json list \<Rightarrow> earthquake_info list \<Rightarrow> exn + earthquake_info list" where
  "nearby_loop tz [] nearby_earthquakes = Inr nearby_earthquakes"
| "nearby_loop tz (feature # features) nearby_earthquakes =
     and_then (process_feature tz feature) (\<lambda>r.
       nearby_loop tz features
         (case r of None \<Rightarrow> nearby_earthquakes
          | Some info \<Rightarrow> nearby_earthquakes @ [info]))"

text \<open>The sort key: \<^verbatim>\<open>lambda x: x['magnitude'] if x['magnitude'] else 0\<close>.\<close>

definition magnitude_key :: "earthquake_info \<Rightarrow> json" where
  "magnitude_key x = (if truthy (magnitude x) then magnitude x else JNum 0)"

text \<open>The request: the last 24 hours in a box of two degrees around San Francisco.\<close>

definition base_url :: string where
  "base_url = ''https://earthquake.usgs.gov/fdsnws/event/1/query''"

definition query_params :: "int \<Rightarrow> (string \<times> json) list" where
  "query_params now =
     (let end_time = now;
          start_time = end_time - 86400
      in [(''format'', JStr ''geojson''),
          (''starttime'', JStr (strftime_T (datetime_of_seconds start_time))),
          (''endtime'', JStr (strftime_T (datetime_of_seconds end_time))),
          (''minlatitude'', JNum (SF_LAT - 2)),
          (''maxlatitude'', JNum (SF_LAT + 2)),
          (''minlongitude'', JNum (SF_LON - 2)),
          (''maxlongitude'', JNum (SF_LON + 2)),
          (''minmagnitude'', JNum 2.0)])"

text \<open>The body of the \<^verbatim>\<open>try\<close> block of \<^verbatim>\<open>get_earthquake\<close>.\<close>

definition get_earthquake_try :: "world \<Rightarrow> exn + earthquake_info list" where
  "get_earthquake_try w =
     and_then (requests_get w base_url (query_params (utcnow w 0)) 10) (\<lambda>response.
     and_then (case raise_for_status response of Some e \<Rightarrow> Inl e | None \<Rightarrow> Inr ()) (\<lambda>u.
     and_then (response_json response) (\<lambda>data.
     and_then (dict_get data ''features'' (JArr [])) (\<lambda>features_v.
     and_then (py_iter features_v) (\<lambda>features.
     and_then (nearby_loop (utc_offset w) features []) (\<lambda>nearby_earthquakes.
       sort_reverse magnitude_key nearby_earthquakes))))))"

text \<open>
  \<^verbatim>\<open>get_earthquake\<close>: \<^verbatim>\<open>except Exception\<close> turns every exception of the body into the
  empty list (after printing it, which the model leaves out). \<open>Inr\<close> is a normal return,
  \<open>Inl\<close> an exception reaching the caller.
\<close>

definition get_earthquake :: "world \<Rightarrow> exn + earthquake_info list" where
  "get_earthquake w = (case get_earthquake_try w of Inl e \<Rightarrow> Inr [] | Inr nearby \<Rightarrow> Inr nearby)"

text \<open>
  The endpoint \<^verbatim>\<open>/api/earthquakes\<close>: \<open>Inr\<close> is the JSON object sent with status 200, \<open>Inl\<close>
  an exception that leaves the view, which the web framework answers with an error status.
\<close>

record api_response =
  count :: nat
  earthquakes :: "earthquake_info list"
  last_updated :: string

definition get_earthquakes_api :: "world \<Rightarrow> exn + api_response" where
  "get_earthquakes_api w =
     and_then (get_earthquake w) (\<lambda>eqs.
       Inr \<lparr>count = length eqs, earthquakes = eqs,
            last_updated = strftime_UTC (datetime_of_seconds (utcnow w 1))\<rparr>)"

section \<open>Notions of the specification\<close>

text \<open>
  The feed interaction succeeds and yields the features \<open>fs\<close>: the request returns a
  response, its status is accepted, its body decodes to a dict, and the value under
  \<^verbatim>\<open>'features'\<close> (the empty list when the key is missing) can be iterated.
\<close>

definition feed_features :: "world \<Rightarrow> json list \<Rightarrow> bool" where
  "feed_features w fs \<longleftrightarrow>
     (\<exists>response data features_v.
        requests_get w base_url (query_params (utcnow w 0)) 10 = Inr response
      \<and> raise_for_status response = None
      \<and> response_json response = Inr data
      \<and> dict_get data ''features'' (JArr []) = Inr features_v
      \<and> py_iter features_v = Inr fs)"

text \<open>
  The failures of the feed interaction: the request raises (network error, timeout), the
  status is refused, the body does not decode, or the decoded payload is malformed: it is
  not a dict, its features cannot be iterated, the extraction raises on one of them, or
  their magnitudes cannot be compared.
\<close>

definition feed_failure :: "world \<Rightarrow> bool" where
  "feed_failure w \<longleftrightarrow>
     (case requests_get w base_url (query_params (utcnow w 0)) 10 of
        Inl e \<Rightarrow> True
      | Inr response \<Rightarrow>
          (case raise_for_status response of
             Some e \<Rightarrow> True
           | None \<Rightarrow>
               (case response_json response of
                  Inl e \<Rightarrow> True
                | Inr data \<Rightarrow>
                    (case dict_get data ''features'' (JArr []) of
                       Inl e \<Rightarrow> True
                     | Inr features_v \<Rightarrow>
                         (case py_iter features_v of
                            Inl e \<Rightarrow> True
                          | Inr fs \<Rightarrow>
                              (case nearby_loop (utc_offset w) fs [] of
                                 Inl e \<Rightarrow> True
                               | Inr nearby \<Rightarrow>
                                   (case sort_reverse magnitude_key nearby of
                                      Inl e \<Rightarrow> True
                                    | Inr sorted_nearby \<Rightarrow> False)))))))"

text \<open>
  A feature record of malformed shape, on which the extraction raises: no \<^verbatim>\<open>'geometry'\<close>,
  no \<^verbatim>\<open>'coordinates'\<close>, fewer than two coordinates, or, for a feature within
  the radius (the only ones whose depth and properties are read), fewer than three
  coordinates or no \<^verbatim>\<open>'properties'\<close>.
\<close>

definition malformed_feature :: "json \<Rightarrow> bool" where
  "malformed_feature feature \<longleftrightarrow>
     subscript_key feature ''geometry'' = Inl (KeyError (JStr ''geometry''))
   \<or> (\<exists>geometry. subscript_key feature ''geometry'' = Inr geometry
        \<and> subscript_key geometry ''coordinates'' = Inl (KeyError (JStr ''coordinates'')))
   \<or> (\<exists>geometry cs. subscript_key feature ''geometry'' = Inr geometry
        \<and> subscript_key geometry ''coordinates'' = Inr (JArr cs)
        \<and> (length cs < 2
           \<or> (\<exists>d. 2 \<le> length cs
                \<and> calculate_distance (JNum SF_LAT) (JNum SF_LON) (cs ! 1) (cs ! 0) = Inr d
                \<and> d \<le> RADIUS_KM
                \<and> (length cs < 3
                   \<or> subscript_key feature ''properties'' = Inl (KeyError (JStr ''properties''))))))"

text \<open>The magnitude as the ordering counts it: an absent magnitude is 0.\<close>

fun magnitude_or_0 :: "json \<Rightarrow> real" where
  "magnitude_or_0 (JNum x) = x"
| "magnitude_or_0 _ = 0"

fun number_or_null :: "json \<Rightarrow> bool" where
  "number_or_null (JNum x) = True"
| "number_or_null JNull = True"
| "number_or_null _ = False"

text \<open>
  The time string the specification asks for: the epoch milliseconds divided by 1000,
  rendered as UTC wall-clock time.
\<close>

definition utc_time_string :: "real \<Rightarrow> string" where
  "utc_time_string ms = strftime_UTC (datetime_of_seconds \<lfloor>ms / 1000\<rfloor>)"

text \<open>
  Mocked feeds for the examples: a world whose feed answers with the given features, and a
  well-formed feature with the given coordinates, magnitude and time.
\<close>

definition mock_world :: "(int \<Rightarrow> int) \<Rightarrow> json list \<Rightarrow> world" where
  "mock_world tz fs =
     \<lparr>requests_get = (\<lambda>u p t. Inr \<lparr>raise_for_status = None,
          response_json = Inr (JObj [(''type'', JStr ''FeatureCollection''),
                                     (''features'', JArr fs)])\<rparr>),
      utcnow = (\<lambda>n. 1700000000),
      utc_offset = tz\<rparr>"

definition failing_world :: "exn + response \<Rightarrow> world" where
  "failing_world r = \<lparr>requests_get = (\<lambda>u p t. r), utcnow = (\<lambda>n. 1700000000), utc_offset = (\<lambda>s. 0)\<rparr>"

definition mock_feature :: "real \<Rightarrow> real \<Rightarrow> real \<Rightarrow> json \<Rightarrow> real \<Rightarrow> json" where
  "mock_feature lon lat depth mag t =
     JObj [(''type'', JStr ''Feature''),
           (''properties'', JObj [(''mag'', mag), (''place'', JStr ''somewhere''),
                                  (''time'', JNum t)]),
           (''geometry'', JObj [(''type'', JStr ''Point''),
                                (''coordinates'', JArr [JNum lon, JNum lat, JNum depth])])]"

text \<open>
  The distance of a feature from the reference point, as the loop computes it from the
  feature's coordinates.
\<close>

definition feature_distance :: "json \<Rightarrow> exn + real" where
  "feature_distance feature =
     and_then (subscript_key feature ''geometry'') (\<lambda>geometry.
     and_then (subscript_key geometry ''coordinates'') (\<lambda>coords.
     and_then (subscript_idx coords 0) (\<lambda>lon.
     and_then (subscript_idx coords 1) (\<lambda>lat.
       calculate_distance (JNum SF_LAT) (JNum SF_LON) lat lon))))"

text \<open>The records the examples expect.\<close>

definition quake :: "json \<Rightarrow> earthquake_info" where
  "quake mag = \<lparr>magnitude = mag, place = JStr ''somewhere'', time = ''2023-11-14 22:13:20 UTC'',
                distance_km = 0, depth_km = 10,
                url = JNull, alert = JNull, felt = JNull, tsunami = JNull\<rparr>"

definition quake_726 :: earthquake_info where
  "quake_726 = \<lparr>magnitude = JNum 3, place = JStr ''somewhere'',
                 time = ''2023-11-14 22:13:20 UTC'', distance_km = 0, depth_km = 7.3,
                 url = JNull, alert = JNull, felt = JNull, tsunami = JNull\<rparr>"

text \<open>
  Polynomials that enclose the sine of a non-negative argument, for the numerical
  example.
\<close>

definition sin_lo :: "real \<Rightarrow> real" where
  "sin_lo x = x - x ^ 3 / 6 + x ^ 5 / 120 - x ^ 7 / 5040"

definition sin_hi :: "real \<Rightarrow> real" where
  "sin_hi x = x - x ^ 3 / 6 + x ^ 5 / 120 + x ^ 7 / 5040"

section \<open>Properties of the distance calculator\<close>

lemma and_then_Inr [simp]: "and_then (Inr x) f = f x"
  by (simp add: and_then_def)

lemma and_then_Inl [simp]: "and_then (Inl e) f = Inl e"
  by (simp add: and_then_def)

lemma radians_JNum [simp]: "radians (JNum x) = Inr (to_rad x)"
  by (simp add: radians_def to_rad_def)

text \<open>
  The quantity under the square roots lies in \<open>[0, 1]\<close> for all real arguments, also for
  latitudes outside \<open>[-90, 90]\<close>, where \<open>cos lat1 * cos lat2\<close> may be negative.
\<close>

lemma hav_range:
  fixes p q v :: real
  defines "a \<equiv> (sin ((q - p) / 2))\<^sup>2 + cos p * cos q * (sin v)\<^sup>2"
  shows "0 \<le> a" and "a \<le> 1"
proof -
  define s where "s = (sin v)\<^sup>2"
  have s0: "0 \<le> s" by (simp add: s_def)
  have s1: "s \<le> 1" unfolding s_def by (simp add: abs_square_le_1)
  have e: "2 * ((q - p) / 2) = q - p" by simp
  have h1: "(sin ((q - p) / 2))\<^sup>2 = (1 - cos (q - p)) / 2"
    using cos_double_sin [of "(q - p) / 2"] unfolding e by simp
  have h2: "cos p * cos q = (cos (q - p) + cos (q + p)) / 2"
    by (simp add: cos_diff cos_add)
  have a_eq: "a = 1 / 2 - cos (q - p) / 2 * (1 - s) + cos (q + p) / 2 * s"
    unfolding a_def h1 h2 s_def by (simp add: field_simps)
  have cD: "cos (q - p) * (1 - s) \<le> 1 * (1 - s)" "- 1 * (1 - s) \<le> cos (q - p) * (1 - s)"
    using s1 by (intro mult_right_mono; simp)+
  have cS: "cos (q + p) * s \<le> 1 * s" "- 1 * s \<le> cos (q + p) * s"
    using s0 by (intro mult_right_mono; simp)+
  show "0 \<le> a" using cD cS unfolding a_eq by simp
  show "a \<le> 1" using cD cS unfolding a_eq by simp
qed

lemma haversine_a_range: "0 \<le> haversine_a lat1 lon1 lat2 lon2" "haversine_a lat1 lon1 lat2 lon2 \<le> 1"
  unfolding haversine_a_def by (rule hav_range)+

lemma calculate_distance_JNum:
  "calculate_distance (JNum lat1) (JNum lon1) (JNum lat2) (JNum lon2)
     = Inr (haversine_spec lat1 lon1 lat2 lon2)"
proof -
  let ?a = "haversine_a lat1 lon1 lat2 lon2"
  have "\<not> ?a < 0" "\<not> 1 - ?a < 0"
    using haversine_a_range [of lat1 lon1 lat2 lon2] by simp_all
  then show ?thesis
    by (simp add: calculate_distance_def Let_def math_sqrt_def haversine_spec_def
        haversine_a_def)
qed

lemma atan2_nonneg: "0 \<le> y \<Longrightarrow> 0 \<le> x \<Longrightarrow> 0 \<le> atan2 y x"
  by (simp add: atan2_def arctan_le_zero_iff zero_le_arctan_iff)

lemma haversine_spec_nonneg: "0 \<le> haversine_spec lat1 lon1 lat2 lon2"
  unfolding haversine_spec_def
  using haversine_a_range [of lat1 lon1 lat2 lon2] by (simp add: atan2_nonneg)

lemma haversine_a_sym: "haversine_a lat1 lon1 lat2 lon2 = haversine_a lat2 lon2 lat1 lon1"
proof -
  have "(sin ((x - y) / 2))\<^sup>2 = (sin ((y - x) / 2))\<^sup>2" for x y :: real
  proof -
    have "(y - x) / 2 = - ((x - y) / 2)" by (simp add: field_simps)
    then have "sin ((y - x) / 2) = - sin ((x - y) / 2)" by (simp only: sin_minus)
    then show ?thesis by simp
  qed
  then show ?thesis by (simp add: haversine_a_def mult.commute)
qed

lemma haversine_spec_sym: "haversine_spec lat1 lon1 lat2 lon2 = haversine_spec lat2 lon2 lat1 lon1"
  using haversine_a_sym [of lat1 lon1 lat2 lon2] by (simp add: haversine_spec_def)

lemma haversine_spec_self: "haversine_spec lat lon lat lon = 0"
  by (simp add: haversine_spec_def haversine_a_def atan2_def)

text \<open>
  In exact arithmetic \<^verbatim>\<open>calculate_distance\<close> returns, for all real latitude/longitude pairs
  and without raising, the haversine distance of the specification: radians, then
  \<open>a = sin\<^sup>2(\<Delta>lat/2) + cos lat1 \<cdot> cos lat2 \<cdot> sin\<^sup>2(\<Delta>lon/2)\<close>, \<open>c = 2 \<cdot> atan2(\<surd>a, \<surd>(1 - a))\<close>
  and \<open>6371 \<cdot> c\<close>.
\<close>

lemma calculate_distance_exact_haversine:
  "calculate_distance (JNum lat1) (JNum lon1) (JNum lat2) (JNum lon2)
     = Inr (6371 * (2 * atan2
         (sqrt ((sin ((lat2 * pi / 180 - lat1 * pi / 180) / 2))\<^sup>2
            + cos (lat1 * pi / 180) * cos (lat2 * pi / 180)
              * (sin ((lon2 * pi / 180 - lon1 * pi / 180) / 2))\<^sup>2))
         (sqrt (1 - ((sin ((lat2 * pi / 180 - lat1 * pi / 180) / 2))\<^sup>2
            + cos (lat1 * pi / 180) * cos (lat2 * pi / 180)
              * (sin ((lon2 * pi / 180 - lon1 * pi / 180) / 2))\<^sup>2)))))"
  using calculate_distance_JNum [of lat1 lon1 lat2 lon2]
  by (simp only: haversine_spec_def haversine_a_def to_rad_def)

text \<open>
  In exact arithmetic, for all real latitude/longitude pairs, in range or not, the distance
  is symmetric, the distance of a point to itself is 0, and the distance is never negative.
\<close>

lemma calculate_distance_exact_symmetric_zero_nonneg:
  "calculate_distance (JNum lat1) (JNum lon1) (JNum lat2) (JNum lon2)
     = calculate_distance (JNum lat2) (JNum lon2) (JNum lat1) (JNum lon1)
   \<and> calculate_distance (JNum lat1) (JNum lon1) (JNum lat1) (JNum lon1) = Inr 0
   \<and> (\<exists>d. calculate_distance (JNum lat1) (JNum lon1) (JNum lat2) (JNum lon2) = Inr d \<and> 0 \<le> d)"
  using haversine_spec_sym [of lat1 lon1 lat2 lon2]
  by (simp add: calculate_distance_JNum haversine_spec_self haversine_spec_nonneg)

subsection \<open>Where the floats leave the domain of the square roots\<close>

text \<open>
  The exact \<^verbatim>\<open>a\<close> is 1 for two antipodal points and 0 for a point and itself, also when the
  second is written with a latitude beyond the pole. There the least rounding error in
  the wrong direction takes the float \<^verbatim>\<open>a\<close> out of \<open>[0, 1]\<close>, and \<^verbatim>\<open>math.sqrt\<close> raises.
\<close>

lemma calculate_distance_rounded_0:
  "calculate_distance_rounded 0 lat1 lon1 lat2 lon2 = calculate_distance lat1 lon1 lat2 lon2"
  by (simp add: calculate_distance_rounded_def calculate_distance_def)

lemma calculate_distance_rounded_JNum:
  "calculate_distance_rounded err (JNum lat1) (JNum lon1) (JNum lat2) (JNum lon2) =
     (if haversine_a lat1 lon1 lat2 lon2 + err < 0 \<or> 1 < haversine_a lat1 lon1 lat2 lon2 + err
      then Inl ValueError
      else Inr (6371 * (2 * atan2 (sqrt (haversine_a lat1 lon1 lat2 lon2 + err))
                                  (sqrt (1 - (haversine_a lat1 lon1 lat2 lon2 + err))))))"
  by (simp add: calculate_distance_rounded_def Let_def math_sqrt_def haversine_a_def)


lemma haversine_a_over_the_pole: "haversine_a lat lon (180 - lat) (lon + 180) = 0"
proof -
  have "(to_rad (180 - lat) - to_rad lat) / 2 = pi / 2 - to_rad lat"
    by (simp add: to_rad_def field_simps)
  then have "sin ((to_rad (180 - lat) - to_rad lat) / 2) = sin (pi / 2 - to_rad lat)"
    by (rule arg_cong)
  also have "\<dots> = cos (to_rad lat)" by (simp add: sin_diff)
  finally have e1: "sin ((to_rad (180 - lat) - to_rad lat) / 2) = cos (to_rad lat)" .
  have "(to_rad (lon + 180) - to_rad lon) / 2 = pi / 2"
    by (simp add: to_rad_def field_simps)
  then have e2: "sin ((to_rad (lon + 180) - to_rad lon) / 2) = 1"
    by (simp only: sin_pi_half)
  have "to_rad (180 - lat) = pi - to_rad lat"
    by (simp add: to_rad_def field_simps)
  then have e3: "cos (to_rad (180 - lat)) = - cos (to_rad lat)"
    by (simp only: cos_pi_minus)
  show ?thesis
    unfolding haversine_a_def e1 e2 e3 by (simp add: power2_eq_square)
qed



lemma rounded_down_over_the_pole:
  assumes "err < 0"
  shows "calculate_distance_rounded err (JNum lat) (JNum lon) (JNum (180 - lat)) (JNum (lon + 180))
     = Inl ValueError"
  using assms by (simp add: calculate_distance_rounded_JNum haversine_a_over_the_pole)



section \<open>The models of the library functions on examples\<close>

text \<open>
  The calendar, the two time formats and the sort, evaluated: days around the epoch, leap
  days, the first and last day of \<^verbatim>\<open>datetime\<close>; a descending sort that keeps records of equal
  keys in their order and raises on keys of different kinds.
\<close>

lemma civil_from_days_examples:
  "civil_from_days 0 = (1970, 1, 1)"
  "civil_from_days (- 1) = (1969, 12, 31)"
  "civil_from_days 19782 = (2024, 2, 29)"
  "civil_from_days 11016 = (2000, 2, 29)"
  "civil_from_days (- 25508) = (1900, 3, 1)"
  "civil_from_days (- 719162) = (1, 1, 1)"
  "civil_from_days 2932896 = (9999, 12, 31)"
  by code_simp+

lemma strftime_examples:
  "strftime_T (datetime_of_seconds 1699913600) = ''2023-11-13T22:13:20''"
  "strftime_UTC (datetime_of_seconds 0) = ''1970-01-01 00:00:00 UTC''"
  "strftime_UTC (datetime_of_seconds (- 1)) = ''1969-12-31 23:59:59 UTC''"
  by code_simp+

lemma sort_examples:
  "sort_reverse (\<lambda>x. x) [JNum 3, JNum 0, JNum 5.5] = Inr [JNum 5.5, JNum 3, JNum 0]"
  "sort_reverse (\<lambda>x. x) [JNum 3, JStr ''a''] = Inl TypeError"
  "sort_reverse (\<lambda>x. x) [JStr ''b'', JStr ''a'', JStr ''c''] = Inr [JStr ''c'', JStr ''b'', JStr ''a'']"
  "sort_reverse fst [(JNum 1, ''a''), (JNum 2, ''b''), (JNum 1, ''c''), (JBool True, ''d'')]
     = Inr [(JNum 2, ''b''), (JNum 1, ''a''), (JNum 1, ''c''), (JBool True, ''d'')]"
  "sort_reverse (\<lambda>x. x) [JObj []] = Inr [JObj []]"
  by code_simp+

section \<open>Properties of the fetcher\<close>

lemma and_then_eq_Inr: "and_then m f = Inr y \<longleftrightarrow> (\<exists>x. m = Inr x \<and> f x = Inr y)"
  by (cases m) simp_all

lemma and_then_eq_Inl: "and_then m f = Inl e \<longleftrightarrow> m = Inl e \<or> (\<exists>x. m = Inr x \<and> f x = Inl e)"
  by (cases m) simp_all

lemma get_earthquake_try_feed:
  "feed_features w fs \<Longrightarrow>
   get_earthquake_try w =
     and_then (nearby_loop (utc_offset w) fs []) (sort_reverse magnitude_key)"
  unfolding feed_features_def get_earthquake_try_def by auto

lemma get_earthquake_try_Inr:
  assumes "get_earthquake_try w = Inr rs"
  shows "\<exists>fs nearby. feed_features w fs \<and> nearby_loop (utc_offset w) fs [] = Inr nearby
           \<and> sort_reverse magnitude_key nearby = Inr rs"
  using assms unfolding feed_features_def get_earthquake_try_def
  by (auto simp: and_then_eq_Inr split: option.splits)

lemma get_earthquake_cases:
  assumes "get_earthquake w = Inr rs"
  shows "rs = [] \<or> get_earthquake_try w = Inr rs"
  using assms by (auto simp: get_earthquake_def split: sum.splits)

lemma nearby_loop_Inr:
  "nearby_loop tz fs acc = Inr rs \<Longrightarrow>
   \<exists>new. rs = acc @ new \<and> (\<forall>r\<in>set new. \<exists>f\<in>set fs. process_feature tz f = Inr (Some r))"
proof (induction fs arbitrary: acc)
  case Nil
  then show ?case by simp
next
  case (Cons f fs)
  from Cons.prems obtain r where r: "process_feature tz f = Inr r"
    and rest: "nearby_loop tz fs (case r of None \<Rightarrow> acc | Some info \<Rightarrow> acc @ [info]) = Inr rs"
    by (auto simp: and_then_eq_Inr)
  from Cons.IH [OF rest] obtain new where new:
    "rs = (case r of None \<Rightarrow> acc | Some info \<Rightarrow> acc @ [info]) @ new"
    "\<forall>x\<in>set new. \<exists>g\<in>set fs. process_feature tz g = Inr (Some x)"
    by blast
  show ?case
  proof (cases r)
    case None
    with new show ?thesis by auto
  next
    case (Some info)
    with new r have "rs = acc @ (info # new)"
      "\<forall>x\<in>set (info # new). \<exists>g\<in>set (f # fs). process_feature tz g = Inr (Some x)"
      by auto
    then show ?thesis by blast
  qed
qed

lemma nearby_loop_Inl:
  "f \<in> set fs \<Longrightarrow> process_feature tz f = Inl e \<Longrightarrow> \<exists>e'. nearby_loop tz fs acc = Inl e'"
proof (induction fs arbitrary: acc)
  case Nil
  then show ?case by simp
next
  case (Cons g fs)
  show ?case
  proof (cases "process_feature tz g")
    case (Inl e')
    then show ?thesis by simp
  next
    case (Inr r)
    with Cons.prems have "f \<in> set fs" by auto
    from Cons.IH [OF this Cons.prems(2)] Inr show ?thesis by simp
  qed
qed

lemma set_insert_by_key: "set (insert_by_key key x ys) = insert x (set ys)"
  by (induction ys) auto

lemma set_stable_sort: "set (stable_sort key xs) = set xs"
  unfolding stable_sort_def by (induction xs) (simp_all add: set_insert_by_key)

lemma length_insert_by_key: "length (insert_by_key key x ys) = Suc (length ys)"
  by (induction ys) auto

lemma length_stable_sort: "length (stable_sort key xs) = length xs"
  unfolding stable_sort_def by (induction xs) (simp_all add: length_insert_by_key)

lemma sort_reverse_set: "sort_reverse key xs = Inr ys \<Longrightarrow> set ys = set xs \<and> length ys = length xs"
  by (auto simp: sort_reverse_def set_stable_sort length_stable_sort split: if_splits)

text \<open>The order of the sort on numeric keys.\<close>

lemma sorted_insert_by_key:
  assumes "\<forall>y\<in>set (x # ys). key y = JNum (f y)"
    and "sorted_wrt (\<lambda>a b. f a \<le> f b) ys"
  shows "sorted_wrt (\<lambda>a b. f a \<le> (f b :: real)) (insert_by_key key x ys)"
  using assms
proof (induction ys)
  case Nil
  then show ?case by simp
next
  case (Cons y ys)
  show ?case
  proof (cases "key_less (key y) (key x)")
    case True
    then have lt: "f y < f x" using Cons.prems(1) by (simp add: key_less_def)
    have "sorted_wrt (\<lambda>a b. f a \<le> f b) (insert_by_key key x ys)"
      using Cons by simp
    moreover have "\<forall>z\<in>set (insert_by_key key x ys). f y \<le> f z"
      using Cons.prems(2) lt by (auto simp: set_insert_by_key)
    ultimately show ?thesis using True by simp
  next
    case False
    then have "f x \<le> f y" using Cons.prems(1) by (simp add: key_less_def)
    then have "\<forall>z\<in>set (y # ys). f x \<le> f z"
      using Cons.prems(2) by auto
    then show ?thesis using False Cons.prems(2) by simp
  qed
qed

lemma sorted_stable_sort:
  assumes "\<forall>y\<in>set xs. key y = JNum (f y)"
  shows "sorted_wrt (\<lambda>a b. f a \<le> (f b :: real)) (stable_sort key xs)"
  using assms
proof (induction xs)
  case Nil
  then show ?case by (simp add: stable_sort_def)
next
  case (Cons x xs)
  then have ih: "sorted_wrt (\<lambda>a b. f a \<le> f b) (stable_sort key xs)" by simp
  have "\<forall>y\<in>set (x # stable_sort key xs). key y = JNum (f y)"
    using Cons.prems by (simp add: set_stable_sort)
  from sorted_insert_by_key [OF this ih] show ?case
    by (simp add: stable_sort_def)
qed

lemma sorted_wrt_rev_conv: "sorted_wrt P (rev xs) = sorted_wrt (\<lambda>a b. P b a) xs"
  by (induction xs) (auto simp: sorted_wrt_append)

lemma sort_reverse_sorted:
  assumes "sort_reverse key xs = Inr ys" and "\<forall>y\<in>set xs. key y = JNum (f y)"
  shows "sorted_wrt (\<lambda>a b. (f b :: real) \<le> f a) ys"
proof (cases "length xs < 2")
  case True
  then have "ys = xs" using assms(1) by (simp add: sort_reverse_def)
  moreover have "sorted_wrt (\<lambda>a b. f b \<le> f a) xs"
    using True by (cases xs rule: list.exhaust; cases "tl xs") auto
  ultimately show ?thesis by simp
next
  case False
  then have ys: "ys = rev (stable_sort key (rev xs))"
    using assms(1) by (simp add: sort_reverse_def split: if_splits)
  have "sorted_wrt (\<lambda>a b. f a \<le> f b) (stable_sort key (rev xs))"
    using assms(2) by (intro sorted_stable_sort) simp
  then show ?thesis unfolding ys by (simp add: sorted_wrt_rev_conv)
qed

lemma get_earthquake_returns: "\<exists>rs. get_earthquake w = Inr rs"
  by (simp add: get_earthquake_def split: sum.splits)

lemma get_earthquake_try_Inl: "get_earthquake_try w = Inl e \<Longrightarrow> get_earthquake w = Inr []"
  by (simp add: get_earthquake_def)

lemma api_of_get_earthquake:
  "get_earthquake w = Inr rs \<Longrightarrow>
   get_earthquakes_api w = Inr \<lparr>count = length rs, earthquakes = rs,
      last_updated = strftime_UTC (datetime_of_seconds (utcnow w 1))\<rparr>"
  by (simp add: get_earthquakes_api_def)

lemma round_half_even_le:
  assumes "x \<le> of_int n"
  shows "round_half_even x \<le> n"
proof -
  have f: "\<lfloor>x\<rfloor> \<le> n" using assms by (simp add: floor_le_iff)
  show ?thesis
  proof (cases "\<lfloor>x\<rfloor> = n")
    case True
    then have "x - of_int \<lfloor>x\<rfloor> \<le> 0" using assms by simp
    then show ?thesis using True by (simp add: round_half_even_def Let_def)
  next
    case False
    then have "\<lfloor>x\<rfloor> + 1 \<le> n" using f by simp
    then show ?thesis using f by (simp add: round_half_even_def Let_def)
  qed
qed

lemma round1_le_200: "x \<le> 200 \<Longrightarrow> round1 x \<le> 200"
proof -
  assume "x \<le> 200"
  then have "x * 10 \<le> of_int 2000" by simp
  then have "round_half_even (x * 10) \<le> 2000" by (rule round_half_even_le)
  then have "(of_int (round_half_even (x * 10)) :: real) \<le> 2000" by linarith
  then show ?thesis by (simp add: round1_def)
qed

lemma strftime_UTC_1700000000:
  "strftime_UTC (datetime_of_seconds 1700000000) = ''2023-11-14 22:13:20 UTC''"
  by code_simp

text \<open>
  C10: on every invocation of the endpoint, whether the feed succeeded or its failure was
  masked, the endpoint answers with a JSON object whose \<^verbatim>\<open>count\<close> is the number of
  elements of its \<^verbatim>\<open>earthquakes\<close> list.
\<close>

theorem C10_count_is_length:
  "\<exists>p. get_earthquakes_api w = Inr p \<and> count p = length (earthquakes p)"
proof -
  obtain rs where "get_earthquake w = Inr rs"
    using get_earthquake_returns by blast
  then show ?thesis
    by (simp add: api_of_get_earthquake)
qed

lemma feed_failure_try: "feed_failure w \<Longrightarrow> \<exists>e. get_earthquake_try w = Inl e"
  unfolding feed_failure_def get_earthquake_try_def
  by (auto split: sum.splits option.splits)

text \<open>
  C1: on every failure of the feed interaction (the request raises, as on a network error
  or a timeout; the status is refused; the body does not decode; the payload is malformed)
  \<^verbatim>\<open>get_earthquake\<close> returns the empty list and raises nothing, and the endpoint answers
  with a JSON object of count 0, an empty list and the current time.
\<close>

theorem C1_feed_failure_masked:
  assumes "feed_failure w"
  shows "get_earthquake w = Inr []
       \<and> get_earthquakes_api w = Inr \<lparr>count = 0, earthquakes = [],
            last_updated = strftime_UTC (datetime_of_seconds (utcnow w 1))\<rparr>"
proof -
  from feed_failure_try [OF assms] obtain e where "get_earthquake_try w = Inl e" by blast
  then have "get_earthquake w = Inr []" by (rule get_earthquake_try_Inl)
  then show ?thesis by (simp add: api_of_get_earthquake)
qed

text \<open>A timeout, and an HTTP 500 answer.\<close>

theorem C1_timeout_and_http_500_witness:
  "get_earthquake (failing_world (Inl Timeout)) = Inr []
   \<and> get_earthquakes_api (failing_world (Inl Timeout))
       = Inr \<lparr>count = 0, earthquakes = [], last_updated = ''2023-11-14 22:13:20 UTC''\<rparr>
   \<and> get_earthquakes_api (failing_world (Inr \<lparr>raise_for_status = Some (HTTPError 500),
          response_json = Inl JSONDecodeError\<rparr>))
       = Inr \<lparr>count = 0, earthquakes = [], last_updated = ''2023-11-14 22:13:20 UTC''\<rparr>"
proof -
  have a: "feed_failure (failing_world (Inl Timeout))"
    by (simp add: feed_failure_def failing_world_def)
  have b: "feed_failure (failing_world (Inr \<lparr>raise_for_status = Some (HTTPError 500),
          response_json = Inl JSONDecodeError\<rparr>))"
    by (simp add: feed_failure_def failing_world_def)
  have t: "utcnow (failing_world r) n = 1700000000" for r n
    by (simp add: failing_world_def)
  show ?thesis
    using C1_feed_failure_masked [OF a] C1_feed_failure_masked [OF b]
    by (simp add: t strftime_UTC_1700000000)
qed

lemma malformed_feature_raises:
  assumes "malformed_feature f"
  shows "\<exists>e. process_feature tz f = Inl e"
proof -
  consider
    (a) "subscript_key f ''geometry'' = Inl (KeyError (JStr ''geometry''))"
  | (b) geometry where "subscript_key f ''geometry'' = Inr geometry"
      "subscript_key geometry ''coordinates'' = Inl (KeyError (JStr ''coordinates''))"
  | (c) geometry cs where "subscript_key f ''geometry'' = Inr geometry"
      "subscript_key geometry ''coordinates'' = Inr (JArr cs)" "length cs < 2"
  | (d) geometry cs d where "subscript_key f ''geometry'' = Inr geometry"
      "subscript_key geometry ''coordinates'' = Inr (JArr cs)" "2 \<le> length cs"
      "calculate_distance (JNum SF_LAT) (JNum SF_LON) (cs ! 1) (cs ! 0) = Inr d"
      "d \<le> RADIUS_KM"
      "length cs < 3 \<or> subscript_key f ''properties'' = Inl (KeyError (JStr ''properties''))"
    using assms unfolding malformed_feature_def by blast
  then show ?thesis
  proof cases
    case a
    then show ?thesis by (simp add: process_feature_def)
  next
    case b
    then show ?thesis by (simp add: process_feature_def)
  next
    case c
    then show ?thesis by (simp add: process_feature_def)
  next
    case d
    show ?thesis
    proof (cases "subscript_key f ''properties''")
      case (Inl e)
      with d show ?thesis by (simp add: process_feature_def)
    next
      case (Inr properties)
      with d have len: "length cs = 2" by auto
      with d Inr show ?thesis
        by (auto simp: process_feature_def and_then_def split: sum.splits)
    qed
  qed
qed

text \<open>
  C3, as the code has it: when the feed decodes but holds a feature record of malformed
  shape (no \<^verbatim>\<open>'geometry'\<close>, no \<^verbatim>\<open>'coordinates'\<close>, fewer than two coordinates, or, within
  the radius, fewer than three coordinates or no \<^verbatim>\<open>'properties'\<close>), the fault is caught
  by the handler of \<^verbatim>\<open>get_earthquake\<close>, which returns the empty list: nothing reaches
  the caller.
\<close>

theorem C3_malformed_feature_gives_empty_list:
  assumes "feed_features w fs" and "f \<in> set fs" and "malformed_feature f"
  shows "get_earthquake w = Inr []"
proof -
  from malformed_feature_raises [OF assms(3)] obtain e where
    "process_feature (utc_offset w) f = Inl e" by blast
  from nearby_loop_Inl [OF assms(2) this] obtain e' where
    "nearby_loop (utc_offset w) fs [] = Inl e'" by blast
  then have "get_earthquake_try w = Inl e'"
    by (simp add: get_earthquake_try_feed [OF assms(1)])
  then show ?thesis by (rule get_earthquake_try_Inl)
qed

lemma feed_features_mock: "feed_features (mock_world tz fs) fs"
  by (simp add: feed_features_def mock_world_def)

text \<open>
  The claim as stated, that such a fault propagates to the caller, fails: a feed whose
  only feature has no \<^verbatim>\<open>'geometry'\<close> makes \<^verbatim>\<open>get_earthquake\<close> return the empty list.
\<close>

theorem C3_missing_geometry_counterexample:
  "get_earthquake (mock_world (\<lambda>s. 0) [JObj [(''type'', JStr ''Feature''),
       (''properties'', JObj [(''mag'', JNum 3)])]]) = Inr []
   \<and> \<not> (\<exists>e. get_earthquake (mock_world (\<lambda>s. 0) [JObj [(''type'', JStr ''Feature''),
       (''properties'', JObj [(''mag'', JNum 3)])]]) = Inl e)"
  by (simp add: get_earthquake_def get_earthquake_try_def mock_world_def process_feature_def)

text \<open>A feature with a single coordinate.\<close>

theorem C3_short_coordinates_witness:
  "get_earthquake (mock_world (\<lambda>s. 0)
      [JObj [(''properties'', JObj [(''mag'', JNum 3)]),
             (''geometry'', JObj [(''coordinates'', JArr [JNum (- 122)])])]]) = Inr []"
proof -
  let ?f = "JObj [(''properties'', JObj [(''mag'', JNum 3)]),
             (''geometry'', JObj [(''coordinates'', JArr [JNum (- 122)])])]"
  have m: "malformed_feature ?f"
    by (simp add: malformed_feature_def)
  show ?thesis
    by (rule C3_malformed_feature_gives_empty_list [OF feed_features_mock _ m]) simp
qed

lemma fromtimestamp_1700000000000:
  "fromtimestamp (\<lambda>s. 0) (1700000000000 / 1000) =
     Inr \<lparr>year = 2023, month = 11, day = 14, hour = 22, minute = 13, second = 20\<rparr>"
  by code_simp

lemma fromtimestamp_1700000000000_pst:
  "fromtimestamp (\<lambda>s. - 28800) (1700000000000 / 1000) =
     Inr \<lparr>year = 2023, month = 11, day = 14, hour = 14, minute = 13, second = 20\<rparr>"
  by code_simp

text \<open>Rounding to one decimal place: ties go to the even tenth.\<close>

lemma round1_50: "round1 50 = 50"
  by code_simp

lemma round1_examples: "round1 7.26 = 7.3" "round1 0.25 = 0.2" "round1 0.35 = 0.4"
  "round1 (- 0.25) = - 0.2"
  by code_simp+

lemma process_feature_mock:
  "process_feature tz (mock_feature lon lat depth mag t) =
     (if haversine_spec SF_LAT SF_LON lat lon \<le> 200 then
        and_then (fromtimestamp tz (t / 1000)) (\<lambda>dt.
          Inr (Some \<lparr>magnitude = mag, place = JStr ''somewhere'', time = strftime_UTC dt,
                     distance_km = round1 (haversine_spec SF_LAT SF_LON lat lon),
                     depth_km = round1 depth,
                     url = JNull, alert = JNull, felt = JNull, tsunami = JNull\<rparr>))
      else Inr None)"
  by (simp add: process_feature_def mock_feature_def calculate_distance_JNum RADIUS_KM_def
      true_div_def py_round1_def)

lemma haversine_spec_meridian:
  assumes "0 \<le> t" and "t < 6371 * pi"
  shows "haversine_spec lat lon (lat + t * 180 / (6371 * pi)) lon = t"
proof -
  define x where "x = t / 12742"
  have x: "0 \<le> x" "x < pi / 2" using assms by (simp_all add: x_def)
  have d: "(to_rad (lat + t * 180 / (6371 * pi)) - to_rad lat) / 2 = x"
    by (simp add: to_rad_def x_def field_simps)
  have a: "haversine_a lat lon (lat + t * 180 / (6371 * pi)) lon = (sin x)\<^sup>2"
    unfolding haversine_a_def d by simp
  have s: "0 \<le> sin x" using x by (intro sin_ge_zero) (simp_all add: less_imp_le)
  have c: "0 < cos x" using x by (intro cos_gt_zero_pi) simp_all
  have "1 - (sin x)\<^sup>2 = (cos x)\<^sup>2"
    by (simp add: cos_squared_eq)
  then have sq: "sqrt (1 - (sin x)\<^sup>2) = cos x" using c by simp
  have "atan2 (sin x) (cos x) = arctan (tan x)"
    using c by (simp add: atan2_def tan_def)
  also have "\<dots> = x" using x by (intro arctan_tan) simp_all
  finally have "atan2 (sin x) (cos x) = x" .
  then show ?thesis
    unfolding haversine_spec_def a sq using s by (simp add: x_def)
qed

lemma process_feature_Some:
  assumes "process_feature tz feature = Inr (Some info)"
  shows "\<exists>geometry coords lon lat depth distance d properties.
        subscript_key feature ''geometry'' = Inr geometry
      \<and> subscript_key geometry ''coordinates'' = Inr coords
      \<and> subscript_idx coords 0 = Inr lon
      \<and> subscript_idx coords 1 = Inr lat
      \<and> subscript_idx coords 2 = Inr depth
      \<and> calculate_distance (JNum SF_LAT) (JNum SF_LON) lat lon = Inr distance
      \<and> distance \<le> RADIUS_KM
      \<and> distance_km info = round1 distance
      \<and> as_float depth = Inr d
      \<and> depth_km info = round1 d
      \<and> subscript_key feature ''properties'' = Inr properties
      \<and> dict_get properties ''mag'' JNull = Inr (magnitude info)"
  using assms unfolding process_feature_def py_round1_def
  by (auto simp: and_then_eq_Inr split: if_splits)

lemma process_feature_None:
  assumes "process_feature tz feature = Inr None"
  shows "\<exists>geometry coords lon lat distance.
        subscript_key feature ''geometry'' = Inr geometry
      \<and> subscript_key geometry ''coordinates'' = Inr coords
      \<and> subscript_idx coords 0 = Inr lon
      \<and> subscript_idx coords 1 = Inr lat
      \<and> calculate_distance (JNum SF_LAT) (JNum SF_LON) lat lon = Inr distance
      \<and> RADIUS_KM < distance"
  using assms unfolding process_feature_def
  by (auto simp: and_then_eq_Inr split: if_splits)

lemma process_feature_distance:
  assumes "process_feature tz feature = Inr (Some info)"
  shows "\<exists>d. feature_distance feature = Inr d \<and> d \<le> 200 \<and> distance_km info = round1 d"
  using process_feature_Some [OF assms] unfolding feature_distance_def RADIUS_KM_def
  by auto

lemma process_feature_far:
  assumes "feature_distance feature = Inr d" and "200 < d"
  shows "process_feature tz feature = Inr None"
proof -
  from assms(1) obtain geometry coords lon lat where
    "subscript_key feature ''geometry'' = Inr geometry"
    "subscript_key geometry ''coordinates'' = Inr coords"
    "subscript_idx coords 0 = Inr lon" "subscript_idx coords 1 = Inr lat"
    "calculate_distance (JNum SF_LAT) (JNum SF_LON) lat lon = Inr d"
    unfolding feature_distance_def by (auto simp: and_then_eq_Inr)
  with assms(2) show ?thesis
    by (simp add: process_feature_def RADIUS_KM_def)
qed

lemma get_earthquake_records:
  assumes "get_earthquake w = Inr rs" and "r \<in> set rs"
  shows "\<exists>fs f. feed_features w fs \<and> f \<in> set fs \<and> process_feature (utc_offset w) f = Inr (Some r)"
proof -
  from assms get_earthquake_cases have "get_earthquake_try w = Inr rs" by fastforce
  from get_earthquake_try_Inr [OF this] obtain fs nearby where
    fs: "feed_features w fs" and loop: "nearby_loop (utc_offset w) fs [] = Inr nearby"
    and srt: "sort_reverse magnitude_key nearby = Inr rs" by blast
  from sort_reverse_set [OF srt] assms(2) have "r \<in> set nearby" by simp
  moreover from nearby_loop_Inr [OF loop] have
    "\<forall>x\<in>set nearby. \<exists>f\<in>set fs. process_feature (utc_offset w) f = Inr (Some x)" by simp
  ultimately obtain f where "f \<in> set fs" "process_feature (utc_offset w) f = Inr (Some r)"
    by blast
  with fs show ?thesis by blast
qed

lemma get_earthquake_distance_le:
  assumes "get_earthquake w = Inr rs" and "r \<in> set rs"
  shows "distance_km r \<le> 200"
proof -
  from get_earthquake_records [OF assms] obtain f where
    "process_feature (utc_offset w) f = Inr (Some r)" by blast
  from process_feature_distance [OF this] show ?thesis
    by (auto intro: round1_le_200)
qed

lemma sort_reverse_single: "sort_reverse key [x] = Inr [x]"
  by (simp add: sort_reverse_def)

lemma get_earthquake_near_far:
  assumes fs: "feed_features w fs" and ord: "fs = [near, far] \<or> fs = [far, near]"
    and near: "feature_distance near = Inr 50" and far: "feature_distance far = Inr 250"
    and r: "process_feature (utc_offset w) near = Inr (Some r)"
  shows "get_earthquake w = Inr [r] \<and> distance_km r = 50"
proof -
  have f: "process_feature (utc_offset w) far = Inr None"
    using far by (rule process_feature_far) simp
  have "nearby_loop (utc_offset w) fs [] = Inr [r]"
    using ord r f by auto
  then have "get_earthquake_try w = Inr [r]"
    by (simp add: get_earthquake_try_feed [OF fs] sort_reverse_single)
  then have "get_earthquake w = Inr [r]" by (simp add: get_earthquake_def)
  moreover have "distance_km r = 50"
    using process_feature_distance [OF r] near by (auto simp: round1_50)
  ultimately show ?thesis by simp
qed

text \<open>
  C4: every record of every list that \<^verbatim>\<open>get_earthquake\<close> returns has a \<^verbatim>\<open>distance_km\<close> of at
  most 200; and when the feed holds, in either order, one feature at 50 km and one at
  250 km from the reference point, the result is exactly the record of the feature at
  50 km.
\<close>

theorem C4_distance_within_radius:
  "(get_earthquake w = Inr rs \<longrightarrow> (\<forall>r\<in>set rs. distance_km r \<le> 200))
   \<and> (feed_features w fs \<and> (fs = [near, far] \<or> fs = [far, near])
        \<and> feature_distance near = Inr 50 \<and> feature_distance far = Inr 250
        \<and> process_feature (utc_offset w) near = Inr (Some r50)
      \<longrightarrow> get_earthquake w = Inr [r50] \<and> distance_km r50 = 50)"
  using get_earthquake_distance_le [of w rs] get_earthquake_near_far [of w fs near far r50]
  by blast

lemma utc_offset_mock: "utc_offset (mock_world tz fs) = tz"
  by (simp add: mock_world_def)

lemma feature_distance_mock:
  "feature_distance (mock_feature lon lat depth mag t) = Inr (haversine_spec SF_LAT SF_LON lat lon)"
  by (simp add: feature_distance_def mock_feature_def calculate_distance_JNum)

lemma feature_distance_north:
  assumes "0 \<le> t" and "t < 12742"
  shows "feature_distance (mock_feature SF_LON (SF_LAT + t * 180 / (6371 * pi)) depth mag ms) = Inr t"
proof -
  have "t < 6371 * pi" using assms(2) pi_ge_two by simp
  with assms(1) show ?thesis
    by (simp only: feature_distance_mock haversine_spec_meridian)
qed

text \<open>
  A feed with a feature 250 km and a feature 50 km to the north of the reference point.
\<close>

theorem C4_near_and_far_witness:
  "get_earthquake (mock_world (\<lambda>s. 0)
      [mock_feature SF_LON (SF_LAT + 250 * 180 / (6371 * pi)) 5 (JNum 4) 1700000000000,
       mock_feature SF_LON (SF_LAT + 50 * 180 / (6371 * pi)) 10 (JNum 3) 1700000000000])
     = Inr [\<lparr>magnitude = JNum 3, place = JStr ''somewhere'', time = ''2023-11-14 22:13:20 UTC'',
             distance_km = 50, depth_km = 10,
             url = JNull, alert = JNull, felt = JNull, tsunami = JNull\<rparr>]
   \<and> distance_km \<lparr>magnitude = JNum 3, place = JStr ''somewhere'',
             time = ''2023-11-14 22:13:20 UTC'', distance_km = 50, depth_km = 10,
             url = JNull, alert = JNull, felt = JNull, tsunami = JNull\<rparr> \<le> 200"
proof -
  let ?far = "mock_feature SF_LON (SF_LAT + 250 * 180 / (6371 * pi)) 5 (JNum 4) 1700000000000"
  let ?near = "mock_feature SF_LON (SF_LAT + 50 * 180 / (6371 * pi)) 10 (JNum 3) 1700000000000"
  let ?w = "mock_world (\<lambda>s. 0) [?far, ?near]"
  let ?r = "\<lparr>magnitude = JNum 3, place = JStr ''somewhere'', time = ''2023-11-14 22:13:20 UTC'',
             distance_km = 50, depth_km = 10,
             url = JNull, alert = JNull, felt = JNull, tsunami = JNull\<rparr>"
  have dn: "feature_distance ?near = Inr 50" by (rule feature_distance_north) simp_all
  have df: "feature_distance ?far = Inr 250" by (rule feature_distance_north) simp_all
  have h: "haversine_spec SF_LAT SF_LON (SF_LAT + 50 * 180 / (6371 * pi)) SF_LON = 50"
    using dn by (simp add: feature_distance_mock)
  have t: "strftime_UTC \<lparr>year = 2023, month = 11, day = 14, hour = 22, minute = 13, second = 20\<rparr>
      = ''2023-11-14 22:13:20 UTC''" by code_simp
  have r10: "round1 10 = 10" by code_simp
  have pn: "process_feature (utc_offset ?w) ?near = Inr (Some ?r)"
    unfolding utc_offset_mock process_feature_mock h fromtimestamp_1700000000000
    by (simp add: t round1_50 r10)
  have ex: "get_earthquake ?w = Inr [?r] \<and> distance_km ?r = 50"
    using C4_distance_within_radius [of ?w "[?r]" "[?far, ?near]" ?near ?far ?r]
      feed_features_mock dn df pn by blast
  then have "\<forall>x\<in>set [?r]. distance_km x \<le> 200"
    using C4_distance_within_radius [of ?w "[?r]" "[?far, ?near]" ?near ?far ?r] by blast
  with ex show ?thesis by simp
qed

lemma magnitude_key_number_or_null:
  "number_or_null (magnitude r) \<Longrightarrow> magnitude_key r = JNum (magnitude_or_0 (magnitude r))"
  by (cases "magnitude r") (simp_all add: magnitude_key_def)

lemma get_earthquake_sorted:
  assumes "get_earthquake w = Inr rs" and "\<forall>r\<in>set rs. number_or_null (magnitude r)"
  shows "sorted_wrt (\<lambda>a b. magnitude_or_0 (magnitude b) \<le> magnitude_or_0 (magnitude a)) rs"
proof -
  from get_earthquake_cases [OF assms(1)] show ?thesis
  proof
    assume "rs = []"
    then show ?thesis by simp
  next
    assume "get_earthquake_try w = Inr rs"
    from get_earthquake_try_Inr [OF this] obtain nearby where
      srt: "sort_reverse magnitude_key nearby = Inr rs" by blast
    from sort_reverse_set [OF srt] assms(2) have
      "\<forall>y\<in>set nearby. magnitude_key y = JNum (magnitude_or_0 (magnitude y))"
      by (simp add: magnitude_key_number_or_null)
    from sort_reverse_sorted [OF srt this] show ?thesis .
  qed
qed

lemma sort_reverse_3_null_55:
  assumes "magnitude r1 = JNum 3" and "magnitude r2 = JNull" and "magnitude r3 = JNum 5.5"
  shows "sort_reverse magnitude_key [r1, r2, r3] = Inr [r3, r1, r2]"
  using assms
  by (simp add: sort_reverse_def stable_sort_def key_less_def comparable_def magnitude_key_def)

lemma get_earthquake_3_null_55:
  assumes fs: "feed_features w [f1, f2, f3]"
    and p: "process_feature (utc_offset w) f1 = Inr (Some r1)"
      "process_feature (utc_offset w) f2 = Inr (Some r2)"
      "process_feature (utc_offset w) f3 = Inr (Some r3)"
    and m: "magnitude r1 = JNum 3" "magnitude r2 = JNull" "magnitude r3 = JNum 5.5"
  shows "get_earthquake w = Inr [r3, r1, r2]"
proof -
  have "nearby_loop (utc_offset w) [f1, f2, f3] [] = Inr [r1, r2, r3]"
    using p by simp
  then have "get_earthquake_try w = Inr [r3, r1, r2]"
    by (simp add: get_earthquake_try_feed [OF fs] sort_reverse_3_null_55 [OF m])
  then show ?thesis by (simp add: get_earthquake_def)
qed

lemma process_feature_magnitude:
  assumes "process_feature tz f = Inr (Some r)"
  shows "\<exists>properties. subscript_key f ''properties'' = Inr properties
          \<and> dict_get properties ''mag'' JNull = Inr (magnitude r)"
  using process_feature_Some [OF assms] by blast

text \<open>
  C5: every list that \<^verbatim>\<open>get_earthquake\<close> returns, its magnitudes being numbers or absent, is
  sorted by magnitude, highest first, an absent magnitude counting as 0; the stored
  magnitude is the feed's \<^verbatim>\<open>mag\<close>, null when absent, whatever the order; and a feed with the
  magnitudes 3.0, None, 5.5 gives the order 5.5, 3.0, None.
\<close>

theorem C5_sorted_by_magnitude_descending:
  "(get_earthquake w = Inr rs \<and> (\<forall>r\<in>set rs. number_or_null (magnitude r))
      \<longrightarrow> sorted_wrt (\<lambda>a b. magnitude_or_0 (magnitude b) \<le> magnitude_or_0 (magnitude a)) rs)
   \<and> (get_earthquake w = Inr rs \<and> r \<in> set rs
      \<longrightarrow> (\<exists>fs f properties. feed_features w fs \<and> f \<in> set fs
             \<and> subscript_key f ''properties'' = Inr properties
             \<and> dict_get properties ''mag'' JNull = Inr (magnitude r)))
   \<and> (feed_features w [f1, f2, f3]
        \<and> process_feature (utc_offset w) f1 = Inr (Some r1)
        \<and> process_feature (utc_offset w) f2 = Inr (Some r2)
        \<and> process_feature (utc_offset w) f3 = Inr (Some r3)
        \<and> magnitude r1 = JNum 3 \<and> magnitude r2 = JNull \<and> magnitude r3 = JNum 5.5
      \<longrightarrow> get_earthquake w = Inr [r3, r1, r2])"
proof (intro conjI impI)
  assume "get_earthquake w = Inr rs \<and> (\<forall>r\<in>set rs. number_or_null (magnitude r))"
  then show "sorted_wrt (\<lambda>a b. magnitude_or_0 (magnitude b) \<le> magnitude_or_0 (magnitude a)) rs"
    using get_earthquake_sorted by blast
next
  assume "get_earthquake w = Inr rs \<and> r \<in> set rs"
  then obtain fs f where "feed_features w fs" "f \<in> set fs"
    "process_feature (utc_offset w) f = Inr (Some r)"
    using get_earthquake_records by blast
  with process_feature_magnitude show "\<exists>fs f properties. feed_features w fs \<and> f \<in> set fs
             \<and> subscript_key f ''properties'' = Inr properties
             \<and> dict_get properties ''mag'' JNull = Inr (magnitude r)"
    by blast
next
  assume "feed_features w [f1, f2, f3]
        \<and> process_feature (utc_offset w) f1 = Inr (Some r1)
        \<and> process_feature (utc_offset w) f2 = Inr (Some r2)
        \<and> process_feature (utc_offset w) f3 = Inr (Some r3)
        \<and> magnitude r1 = JNum 3 \<and> magnitude r2 = JNull \<and> magnitude r3 = JNum 5.5"
  then show "get_earthquake w = Inr [r3, r1, r2]"
    using get_earthquake_3_null_55 by blast
qed

lemma process_feature_at_SF:
  "process_feature (\<lambda>s. 0) (mock_feature SF_LON SF_LAT depth mag 1700000000000) =
     Inr (Some \<lparr>magnitude = mag, place = JStr ''somewhere'', time = ''2023-11-14 22:13:20 UTC'',
                distance_km = 0, depth_km = round1 depth,
                url = JNull, alert = JNull, felt = JNull, tsunami = JNull\<rparr>)"
proof -
  have t: "strftime_UTC \<lparr>year = 2023, month = 11, day = 14, hour = 22, minute = 13, second = 20\<rparr>
      = ''2023-11-14 22:13:20 UTC''" by code_simp
  have r0: "round1 0 = 0" by code_simp
  show ?thesis
    unfolding process_feature_mock haversine_spec_self fromtimestamp_1700000000000
    by (simp add: t r0)
qed

text \<open>Three features at the reference point with the magnitudes 3.0, None and 5.5.\<close>

theorem C5_three_magnitudes_witness:
  "get_earthquake (mock_world (\<lambda>s. 0)
      [mock_feature SF_LON SF_LAT 10 (JNum 3) 1700000000000,
       mock_feature SF_LON SF_LAT 10 JNull 1700000000000,
       mock_feature SF_LON SF_LAT 10 (JNum 5.5) 1700000000000])
     = Inr [quake (JNum 5.5), quake (JNum 3), quake JNull]
   \<and> sorted_wrt (\<lambda>a b. magnitude_or_0 (magnitude b) \<le> magnitude_or_0 (magnitude a))
        [quake (JNum 5.5), quake (JNum 3), quake JNull]
   \<and> magnitude (quake JNull) = JNull"
proof -
  let ?f = "\<lambda>m. mock_feature SF_LON SF_LAT 10 m 1700000000000"
  let ?w = "mock_world (\<lambda>s. 0) [?f (JNum 3), ?f JNull, ?f (JNum 5.5)]"
  let ?rs = "[quake (JNum 5.5), quake (JNum 3), quake JNull]"
  have r10: "round1 10 = 10" by code_simp
  have p: "process_feature (utc_offset ?w) (?f m) = Inr (Some (quake m))" for m
    by (simp add: utc_offset_mock process_feature_at_SF r10 quake_def)
  have m: "magnitude (quake m) = m" for m by (simp add: quake_def)
  note c5 = C5_sorted_by_magnitude_descending [of ?w ?rs "quake JNull" "?f (JNum 3)" "?f JNull"
      "?f (JNum 5.5)" "quake (JNum 3)" "quake JNull" "quake (JNum 5.5)"]
  have g: "get_earthquake ?w = Inr ?rs"
    using c5 feed_features_mock p m by blast
  moreover have "\<forall>r\<in>set ?rs. number_or_null (magnitude r)" by (simp add: m)
  ultimately have "sorted_wrt (\<lambda>a b. magnitude_or_0 (magnitude b) \<le> magnitude_or_0 (magnitude a)) ?rs"
    using c5 by blast
  with g show ?thesis by (simp add: m)
qed

lemma round_half_even_close:
  "\<bar>of_int (round_half_even y) - y\<bar> \<le> 1 / 2"
proof -
  have "of_int \<lfloor>y\<rfloor> \<le> y" "y < of_int \<lfloor>y\<rfloor> + 1" by linarith+
  then show ?thesis
    by (auto simp: round_half_even_def Let_def)
qed

lemma round1_close: "\<bar>round1 x - x\<bar> \<le> 1 / 20"
  using round_half_even_close [of "x * 10"] by (simp add: round1_def field_simps)

lemma round1_tenths: "\<exists>n::int. round1 x = of_int n / 10"
  by (auto simp: round1_def)

text \<open>
  C8: for every feature processed, the longitude is element 0 of its coordinates and the
  latitude element 1; the distance is that of \<^verbatim>\<open>calculate_distance\<close> between the reference
  point (37.7749, -122.4194) and that latitude and longitude; the feature is kept when the
  distance is at most 200, and then the depth is element 2 and the stored \<^verbatim>\<open>distance_km\<close>
  and \<^verbatim>\<open>depth_km\<close> are the distance and the depth rounded to one decimal place. Every
  record returned was built so from a feature of the feed. Rounding to one decimal place
  yields a multiple of one tenth, at most one twentieth away.
\<close>

theorem C8_coordinates_distance_and_rounding:
  "(process_feature tz feature = Inr res \<longrightarrow>
      (\<exists>geometry coords lon lat distance.
          subscript_key feature ''geometry'' = Inr geometry
        \<and> subscript_key geometry ''coordinates'' = Inr coords
        \<and> subscript_idx coords 0 = Inr lon
        \<and> subscript_idx coords 1 = Inr lat
        \<and> calculate_distance (JNum 37.7749) (JNum (- 122.4194)) lat lon = Inr distance
        \<and> (case res of
             None \<Rightarrow> 200 < distance
           | Some info \<Rightarrow>
               distance \<le> 200
             \<and> distance_km info = round1 distance
             \<and> (\<exists>depth d. subscript_idx coords 2 = Inr depth \<and> as_float depth = Inr d
                  \<and> depth_km info = round1 d))))
   \<and> (get_earthquake w = Inr rs \<and> r \<in> set rs \<longrightarrow>
        (\<exists>fs f. feed_features w fs \<and> f \<in> set fs
           \<and> process_feature (utc_offset w) f = Inr (Some r)))
   \<and> (\<exists>n::int. round1 x = of_int n / 10) \<and> \<bar>round1 x - x\<bar> \<le> 1 / 20"
proof (intro conjI impI)
  assume p: "process_feature tz feature = Inr res"
  show "\<exists>geometry coords lon lat distance.
          subscript_key feature ''geometry'' = Inr geometry
        \<and> subscript_key geometry ''coordinates'' = Inr coords
        \<and> subscript_idx coords 0 = Inr lon
        \<and> subscript_idx coords 1 = Inr lat
        \<and> calculate_distance (JNum 37.7749) (JNum (- 122.4194)) lat lon = Inr distance
        \<and> (case res of
             None \<Rightarrow> 200 < distance
           | Some info \<Rightarrow>
               distance \<le> 200
             \<and> distance_km info = round1 distance
             \<and> (\<exists>depth d. subscript_idx coords 2 = Inr depth \<and> as_float depth = Inr d
                  \<and> depth_km info = round1 d))"
  proof (cases res)
    case None
    with process_feature_None [of tz feature] p show ?thesis
      unfolding SF_LAT_def SF_LON_def RADIUS_KM_def by fastforce
  next
    case (Some info)
    with process_feature_Some [of tz feature info] p show ?thesis
      unfolding SF_LAT_def SF_LON_def RADIUS_KM_def by fastforce
  qed
next
  assume "get_earthquake w = Inr rs \<and> r \<in> set rs"
  then show "\<exists>fs f. feed_features w fs \<and> f \<in> set fs
           \<and> process_feature (utc_offset w) f = Inr (Some r)"
    using get_earthquake_records by blast
next
  show "\<exists>n::int. round1 x = of_int n / 10" by (rule round1_tenths)
  show "\<bar>round1 x - x\<bar> \<le> 1 / 20" by (rule round1_close)
qed

text \<open>A feature at the reference point, 7.26 km deep.\<close>

theorem C8_depth_726_witness:
  "process_feature (\<lambda>s. 0) (mock_feature SF_LON SF_LAT 7.26 (JNum 3) 1700000000000)
     = Inr (Some quake_726)
   \<and> (\<exists>distance.
         calculate_distance (JNum 37.7749) (JNum (- 122.4194)) (JNum SF_LAT) (JNum SF_LON)
           = Inr distance
       \<and> distance \<le> 200
       \<and> distance_km quake_726 = round1 distance
       \<and> depth_km quake_726 = round1 7.26)
   \<and> get_earthquake (mock_world (\<lambda>s. 0)
         [mock_feature SF_LON SF_LAT 7.26 (JNum 3) 1700000000000]) = Inr [quake_726]"
proof -
  let ?f = "mock_feature SF_LON SF_LAT 7.26 (JNum 3) 1700000000000"
  let ?w = "mock_world (\<lambda>s. 0) [?f]"
  have r: "round1 7.26 = 7.3" by code_simp
  have p: "process_feature (\<lambda>s. 0) ?f = Inr (Some quake_726)"
    by (simp only: process_feature_at_SF r quake_726_def)
  note c8 = C8_coordinates_distance_and_rounding [of "\<lambda>s. 0" ?f "Some quake_726" ?w
      "[quake_726]" quake_726 0]
  from c8 p obtain geometry coords lon lat distance depth d where e:
    "subscript_key ?f ''geometry'' = Inr geometry"
    "subscript_key geometry ''coordinates'' = Inr coords"
    "subscript_idx coords 0 = Inr lon" "subscript_idx coords 1 = Inr lat"
    "calculate_distance (JNum 37.7749) (JNum (- 122.4194)) lat lon = Inr distance"
    "distance \<le> 200" "distance_km quake_726 = round1 distance"
    "subscript_idx coords 2 = Inr depth" "as_float depth = Inr d"
    "depth_km quake_726 = round1 d"
    by auto
  from e(1,2,3,4,8) have v: "lon = JNum SF_LON" "lat = JNum SF_LAT" "depth = JNum 7.26"
    by (auto simp: mock_feature_def)
  from e(9) v(3) have "d = 7.26" by simp
  with e(10) have dep: "depth_km quake_726 = round1 7.26" by (simp only:)
  from e(5) v(1,2) have
    "calculate_distance (JNum 37.7749) (JNum (- 122.4194)) (JNum SF_LAT) (JNum SF_LON)
       = Inr distance" by (simp only:)
  with e(6,7) dep have a: "\<exists>distance.
         calculate_distance (JNum 37.7749) (JNum (- 122.4194)) (JNum SF_LAT) (JNum SF_LON)
           = Inr distance
       \<and> distance \<le> 200
       \<and> distance_km quake_726 = round1 distance
       \<and> depth_km quake_726 = round1 7.26"
    by blast
  have "nearby_loop (\<lambda>s. 0) [?f] [] = Inr [quake_726]" using p by simp
  then have "get_earthquake ?w = Inr [quake_726]"
    by (simp add: get_earthquake_def get_earthquake_try_feed [OF feed_features_mock]
        utc_offset_mock sort_reverse_single)
  with p a show ?thesis by simp
qed

text \<open>
  C2 asks for the time field to be the feature's epoch milliseconds rendered as UTC
  wall-clock time. The code renders the local time of the process and appends the
  letters UTC: in a process eight hours west of UTC, a feature of the epoch millisecond
  1700000000000 is stored with the time 14:13:20, where UTC has 22:13:20.
\<close>

theorem C2_time_rendered_in_local_zone:
  "get_earthquake (mock_world (\<lambda>s. - 28800)
      [mock_feature SF_LON SF_LAT 10 (JNum 3) 1700000000000])
     = Inr [\<lparr>magnitude = JNum 3, place = JStr ''somewhere'',
              time = ''2023-11-14 14:13:20 UTC'', distance_km = 0, depth_km = 10,
              url = JNull, alert = JNull, felt = JNull, tsunami = JNull\<rparr>]
   \<and> utc_time_string 1700000000000 = ''2023-11-14 22:13:20 UTC''"
proof -
  let ?f = "mock_feature SF_LON SF_LAT 10 (JNum 3) 1700000000000"
  let ?w = "mock_world (\<lambda>s. - 28800) [?f]"
  let ?r = "\<lparr>magnitude = JNum 3, place = JStr ''somewhere'',
              time = ''2023-11-14 14:13:20 UTC'', distance_km = 0, depth_km = 10,
              url = JNull, alert = JNull, felt = JNull, tsunami = JNull\<rparr>"
  have t: "strftime_UTC \<lparr>year = 2023, month = 11, day = 14, hour = 14, minute = 13, second = 20\<rparr>
      = ''2023-11-14 14:13:20 UTC''" by code_simp
  have r0: "round1 0 = 0" by code_simp
  have r10: "round1 10 = 10" by code_simp
  have p: "process_feature (\<lambda>s. - 28800) ?f = Inr (Some ?r)"
    unfolding process_feature_mock haversine_spec_self fromtimestamp_1700000000000_pst
    by (simp add: t r0 r10)
  have "nearby_loop (\<lambda>s. - 28800) [?f] [] = Inr [?r]" using p by simp
  then have g: "get_earthquake ?w = Inr [?r]"
    by (simp add: get_earthquake_def get_earthquake_try_feed [OF feed_features_mock]
        utc_offset_mock sort_reverse_single)
  have u: "utc_time_string 1700000000000 = ''2023-11-14 22:13:20 UTC''" by code_simp
  from g u show ?thesis by simp
qed

section \<open>The distance from San Francisco to Los Angeles\<close>

text \<open>Sine by its Taylor polynomial of degree 5, with the remainder of degree 7.\<close>

lemma sin_taylor7:
  assumes "0 \<le> x"
  shows "sin_lo x \<le> sin x" and "sin x \<le> sin_hi x"
proof -
  have s: "(\<Sum>m<7. sin_coeff m * x ^ m) = x - x ^ 3 / 6 + x ^ 5 / 120"
    by (simp add: eval_nat_numeral lessThan_Suc sin_coeff_Suc cos_coeff_Suc del: of_nat_Suc)
  have f7: "(fact 7 :: real) = 5040" by (simp add: fact_numeral)
  have ax: "\<bar>x\<bar> = x" using assms by simp
  have f: "inverse (fact 7) * \<bar>x\<bar> ^ 7 = x ^ 7 / 5040"
    unfolding f7 ax by (simp add: field_simps)
  from Maclaurin_sin_bound [of x 7] have "\<bar>sin x - (x - x ^ 3 / 6 + x ^ 5 / 120)\<bar> \<le> x ^ 7 / 5040"
    unfolding s f .
  then show "sin_lo x \<le> sin x" and "sin x \<le> sin_hi x"
    unfolding sin_lo_def sin_hi_def by linarith+
qed

lemma pi_bounds: "3.141 < pi" "pi < 3.1422"
proof -
  have h: "0.5237 \<le> pi / 2" "- (pi / 2) \<le> 0.5235" "- (pi / 2) \<le> 0.5237"
    "0.5235 \<le> pi / 2" "- (pi / 2) \<le> pi / 6" "pi / 6 \<le> pi / 2"
    using pi_ge_two by simp_all
  have "sin 0.5235 \<le> sin_hi 0.5235" by (rule sin_taylor7) simp
  also have "\<dots> < 1 / 2" by (simp add: sin_hi_def power_divide)
  finally have "sin 0.5235 < sin (pi / 6)" by (simp add: sin_30)
  then have "0.5235 < pi / 6"
    using h by (simp only: sin_mono_less_eq)
  then show "3.141 < pi" by simp
  have "1 / 2 < sin_lo 0.5237" by (simp add: sin_lo_def power_divide)
  also have "\<dots> \<le> sin 0.5237" by (rule sin_taylor7) simp
  finally have "sin (pi / 6) < sin 0.5237" by (simp add: sin_30)
  then have "pi / 6 < 0.5237"
    using h by (simp only: sin_mono_less_eq)
  then show "pi < 3.1422" by simp
qed

text \<open>Enclosures of sine and cosine on \<open>[0, pi / 2]\<close> from enclosures of the argument.\<close>

lemma sin_enclosure:
  assumes "0 \<le> lo" and "lo \<le> x" and "x \<le> hi" and "x \<le> pi / 2"
  shows "sin_lo lo \<le> sin x" and "sin x \<le> hi"
proof -
  have "sin_lo lo \<le> sin lo" using assms(1) by (rule sin_taylor7)
  also have "sin lo \<le> sin x"
    using assms pi_ge_two by (subst sin_mono_le_eq) simp_all
  finally show "sin_lo lo \<le> sin x" .
  have "sin x \<le> x" using assms by (intro sin_x_le_x) simp
  with assms(3) show "sin x \<le> hi" by simp
qed

lemma cos_enclosure:
  assumes "0 \<le> lo" and "lo \<le> y" and "y \<le> hi" and "y \<le> pi / 2" and "0 \<le> sin_lo lo"
  shows "1 - 2 * hi\<^sup>2 \<le> cos (2 * y)" and "cos (2 * y) \<le> 1 - 2 * (sin_lo lo)\<^sup>2"
proof -
  from sin_enclosure [OF assms(1-4)] have s: "sin_lo lo \<le> sin y" "sin y \<le> hi" .
  have s0: "0 \<le> sin y" using assms(5) s(1) by simp
  have "(sin y)\<^sup>2 \<le> hi\<^sup>2" using s(2) s0 by (rule power_mono)
  then show "1 - 2 * hi\<^sup>2 \<le> cos (2 * y)" by (simp add: cos_double_sin)
  have "(sin_lo lo)\<^sup>2 \<le> (sin y)\<^sup>2" using s(1) assms(5) by (rule power_mono)
  then show "cos (2 * y) \<le> 1 - 2 * (sin_lo lo)\<^sup>2" by (simp add: cos_double_sin)
qed

text \<open>The angle \<open>atan2 (sqrt a) (sqrt (1 - a))\<close> is the one in \<open>[0, pi / 2)\<close> whose sine is \<open>sqrt a\<close>.\<close>

lemma atan2_sqrt:
  assumes "0 \<le> a" and "a < 1"
  shows "0 \<le> atan2 (sqrt a) (sqrt (1 - a))" and "atan2 (sqrt a) (sqrt (1 - a)) < pi / 2"
    and "sin (atan2 (sqrt a) (sqrt (1 - a))) = sqrt a"
proof -
  have p: "0 < sqrt (1 - a)" using assms by simp
  then have e: "atan2 (sqrt a) (sqrt (1 - a)) = arctan (sqrt a / sqrt (1 - a))"
    by (simp add: atan2_def)
  show "0 \<le> atan2 (sqrt a) (sqrt (1 - a))"
    unfolding e using assms p by (simp add: zero_le_arctan_iff)
  show "atan2 (sqrt a) (sqrt (1 - a)) < pi / 2"
    unfolding e by (rule arctan_ubound)
  have "1 + (sqrt a / sqrt (1 - a))\<^sup>2 = 1 / (1 - a)"
    using assms by (simp add: power_divide field_simps)
  then have "sqrt (1 + (sqrt a / sqrt (1 - a))\<^sup>2) = 1 / sqrt (1 - a)"
    by (simp add: real_sqrt_divide)
  then show "sin (atan2 (sqrt a) (sqrt (1 - a))) = sqrt a"
    unfolding e sin_arctan using p by simp
qed

lemma haversine_a_SF_LA:
  "0.0019 \<le> haversine_a 37.7749 (- 122.4194) 34.0522 (- 118.2437)"
  "haversine_a 37.7749 (- 122.4194) 34.0522 (- 118.2437) \<le> 0.00193"
proof -
  define x1 where "x1 = 3.7227 * pi / 360"
  define x2 where "x2 = 4.1757 * pi / 360"
  define y1 where "y1 = 37.7749 * pi / 360"
  define y2 where "y2 = 34.0522 * pi / 360"
  note defs = x1_def x2_def y1_def y2_def
  have a_eq: "haversine_a 37.7749 (- 122.4194) 34.0522 (- 118.2437)
      = (sin x1)\<^sup>2 + cos (2 * y1) * cos (2 * y2) * (sin x2)\<^sup>2"
  proof -
    have "(to_rad 34.0522 - to_rad 37.7749) / 2 = - x1"
      "(to_rad (- 118.2437) - to_rad (- 122.4194)) / 2 = x2"
      "to_rad 37.7749 = 2 * y1" "to_rad 34.0522 = 2 * y2"
      by (simp_all add: to_rad_def defs)
    then show ?thesis by (simp only: haversine_a_def sin_minus power2_minus)
  qed
  have x1: "0.03248 \<le> x1" "x1 \<le> 0.0325" "x1 \<le> pi / 2"
    using pi_bounds by (simp_all add: defs)
  have x2: "0.03643 \<le> x2" "x2 \<le> 0.03645" "x2 \<le> pi / 2"
    using pi_bounds by (simp_all add: defs)
  have y1: "0.32958 \<le> y1" "y1 \<le> 0.32972" "y1 \<le> pi / 2"
    using pi_bounds by (simp_all add: defs)
  have y2: "0.29710 \<le> y2" "y2 \<le> 0.29722" "y2 \<le> pi / 2"
    using pi_bounds by (simp_all add: defs)
  have n1: "0.03247 \<le> sin_lo 0.03248" by (simp add: sin_lo_def power_divide)
  have n2: "0.03642 \<le> sin_lo 0.03643" by (simp add: sin_lo_def power_divide)
  have n3: "0 \<le> sin_lo 0.32958" "1 - 2 * (sin_lo 0.32958)\<^sup>2 \<le> 0.7906"
    by (simp_all add: sin_lo_def power_divide)
  have n4: "0 \<le> sin_lo 0.29710" "1 - 2 * (sin_lo 0.29710)\<^sup>2 \<le> 0.8286"
    by (simp_all add: sin_lo_def power_divide)
  have n5: "(0.7825 :: real) \<le> 1 - 2 * 0.32972\<^sup>2" "(0.8233 :: real) \<le> 1 - 2 * 0.29722\<^sup>2"
    by (simp_all add: power_divide)
  have s1: "0.03247 \<le> sin x1" "sin x1 \<le> 0.0325"
    using sin_enclosure [OF _ x1] n1 by simp_all
  have s2: "0.03642 \<le> sin x2" "sin x2 \<le> 0.03645"
    using sin_enclosure [OF _ x2] n2 by simp_all
  have c1: "0.7825 \<le> cos (2 * y1)" "cos (2 * y1) \<le> 0.7906"
    using cos_enclosure [OF _ y1 n3(1)] n3(2) n5(1) by simp_all
  have c2: "0.8233 \<le> cos (2 * y2)" "cos (2 * y2) \<le> 0.8286"
    using cos_enclosure [OF _ y2 n4(1)] n4(2) n5(2) by simp_all
  have q1: "0.03247\<^sup>2 \<le> (sin x1)\<^sup>2" "(sin x1)\<^sup>2 \<le> 0.0325\<^sup>2"
    using s1 by (intro power_mono; simp)+
  have q2: "0.03642\<^sup>2 \<le> (sin x2)\<^sup>2" "(sin x2)\<^sup>2 \<le> 0.03645\<^sup>2"
    using s2 by (intro power_mono; simp)+
  have cc: "0.7825 * 0.8233 \<le> cos (2 * y1) * cos (2 * y2)"
    "cos (2 * y1) * cos (2 * y2) \<le> 0.7906 * 0.8286"
    using c1 c2 by (intro mult_mono; simp)+
  have t: "0.7825 * 0.8233 * 0.03642\<^sup>2 \<le> cos (2 * y1) * cos (2 * y2) * (sin x2)\<^sup>2"
    "cos (2 * y1) * cos (2 * y2) * (sin x2)\<^sup>2 \<le> 0.7906 * 0.8286 * 0.03645\<^sup>2"
    using cc q2 c1 c2 by (intro mult_mono; simp)+
  have lo: "(0.0019 :: real) \<le> 0.03247\<^sup>2 + 0.7825 * 0.8233 * 0.03642\<^sup>2"
    by (simp add: power_divide)
  have hi: "(0.0325 :: real)\<^sup>2 + 0.7906 * 0.8286 * 0.03645\<^sup>2 \<le> 0.00193"
    by (simp add: power_divide)
  show "0.0019 \<le> haversine_a 37.7749 (- 122.4194) 34.0522 (- 118.2437)"
    unfolding a_eq using q1(1) t(1) lo by linarith
  show "haversine_a 37.7749 (- 122.4194) 34.0522 (- 118.2437) \<le> 0.00193"
    unfolding a_eq using q1(2) t(2) hi by linarith
qed

lemma haversine_spec_SF_LA:
  "554 \<le> haversine_spec 37.7749 (- 122.4194) 34.0522 (- 118.2437)"
  "haversine_spec 37.7749 (- 122.4194) 34.0522 (- 118.2437) \<le> 564"
proof -
  define a where "a = haversine_a 37.7749 (- 122.4194) 34.0522 (- 118.2437)"
  define th where "th = atan2 (sqrt a) (sqrt (1 - a))"
  have a: "0.0019 \<le> a" "a \<le> 0.00193"
    unfolding a_def by (rule haversine_a_SF_LA)+
  then have "0 \<le> a" "a < 1" by simp_all
  from atan2_sqrt [OF this] have th: "0 \<le> th" "th < pi / 2" "sin th = sqrt a"
    unfolding th_def .
  have d: "haversine_spec 37.7749 (- 122.4194) 34.0522 (- 118.2437) = 6371 * (2 * th)"
    by (simp only: haversine_spec_def a_def th_def)
  have "sin (0.0435 :: real) \<le> 0.0435" by (rule sin_x_le_x) simp
  also have "0.0435 \<le> sqrt a" using a(1) by (intro real_le_rsqrt) (simp add: power_divide)
  finally have "sin 0.0435 \<le> sin th" by (simp add: th)
  then have l: "0.0435 \<le> th"
    using th pi_ge_two by (subst (asm) sin_mono_le_eq) simp_all
  have "sqrt a \<le> 0.0442" using a(2) by (intro real_le_lsqrt) (simp_all add: power_divide)
  also have "0.0442 \<le> sin_lo 0.04426" by (simp add: sin_lo_def power_divide)
  also have "\<dots> \<le> sin 0.04426" by (rule sin_taylor7) simp
  finally have "sin th \<le> sin 0.04426" by (simp add: th)
  then have u: "th \<le> 0.04426"
    using th pi_ge_two by (subst (asm) sin_mono_le_eq) simp_all
  show "554 \<le> haversine_spec 37.7749 (- 122.4194) 34.0522 (- 118.2437)"
    unfolding d using l by simp
  show "haversine_spec 37.7749 (- 122.4194) 34.0522 (- 118.2437) \<le> 564"
    unfolding d using u by simp
qed

text \<open>
  C9: \<^verbatim>\<open>calculate_distance\<close> from San Francisco (37.7749, -122.4194) to Los Angeles
  (34.0522, -118.2437) returns a value within 5 km of 559 km.
\<close>

theorem C9_san_francisco_to_los_angeles:
  "\<exists>d. calculate_distance (JNum 37.7749) (JNum (- 122.4194)) (JNum 34.0522) (JNum (- 118.2437))
         = Inr d \<and> \<bar>d - 559\<bar> \<le> 5"
  using haversine_spec_SF_LA by (simp add: calculate_distance_JNum abs_le_iff)

end
